theory Spec2Isabelle
  imports Complex_Main "HOL-Library.Word"
begin

unbundle bit_operations_syntax

section \<open>Python values shared by both adapters\<close>

text \<open>
  Exceptions are values: a method returns \<open>Inl e\<close> where the Python lets \<open>e\<close>
  leave it. \<open>SystemExit n\<close> is what \<^verbatim>\<open>exit(n)\<close> raises: the interpreter ends with
  status \<open>n\<close>.
\<close>

datatype exn =
    Exception string
  | RuntimeError string
  | TypeError string
  | ValueError string
  | IndexError string
  | TimeoutError string
  | cv2_error string
  | SystemExit int

text \<open>
  The name of an option in a message: \<open>str_of o\<close> is \<^verbatim>\<open>str(option)\<close>, and
  \<open>upper_of o\<close> is \<^verbatim>\<open>str(option).replace('option.', '').upper()\<close>.
\<close>

datatype option_name = str_of string | upper_of string

text \<open>
  Every \<^verbatim>\<open>print\<close> of the two files, as the message it formats with the values it
  puts into the message.
\<close>

datatype printed =
    Try_waiting nat nat nat
      \<comment> \<open>Try {tries+1} of {tries_max}: waiting for {sleep_time_secs} secs for a device to be connected!\<close>
  | Seconds_passed nat nat
      \<comment> \<open>{sec_count + 1} seconds passed, followed by sec_count dots\<close>
  | Created_devices nat
      \<comment> \<open>Created {len(devices)} device(s)\<close>
  | Camera_configured string string
      \<comment> \<open>camera_name serial_number camera configured.\<close>
  | Camera_closed string string
      \<comment> \<open>camera_name serial_number camera closed\<close>
  | Exception_report string string
      \<comment> \<open>Exception (type name): message\<close>
  | Initialization_error
      \<comment> \<open>Error during camera initialization. Make sure to have set the right RGB camera resolution ...\<close>
  | Option_changed option_name int
      \<comment> \<open>Option NAME changed to value: d\<close>
  | Option_value option_name int
      \<comment> \<open>Option NAME value: d\<close>
  | Option_not_set string option_name
      \<comment> \<open>Exception (type name): the option NAME has NOT been set.\<close>

text \<open>
  What \<^verbatim>\<open>pyrealsense2\<close> is asked for: \<^verbatim>\<open>config.enable_device(serial)\<close> and one
  \<^verbatim>\<open>config.enable_stream(stream, width, height, format, fps)\<close> for each stream.
\<close>

datatype rs_stream = stream_depth | stream_color

datatype rs_format = z16 | bgr8

record rs_config =
  enabled_device :: "string option"
  enabled_streams :: "(rs_stream \<times> nat \<times> nat \<times> rs_format \<times> int) list"

text \<open>
  What a run does to the outside, in order: what it prints, how long it sleeps, and
  which calls of the device layers it makes. The counters say how often each call
  has been made so far.
\<close>

datatype sdk_call =
    create_device
  | destroy_device
  | start_stream
  | get_buffer
  | requeue_buffer
  | pipeline_start rs_config
  | pipeline_stop
  | wait_for_frames

datatype event = Print printed | Sleep nat | Call sdk_call

record world =
  trace :: "event list"
  create_calls :: nat
  buffer_calls :: nat
  destroy_calls :: nat
  frame_calls :: nat
  stop_calls :: nat

definition emit :: "event \<Rightarrow> world \<Rightarrow> world" where
  "emit e w = w\<lparr>trace := trace w @ [e]\<rparr>"

subsection \<open>The camera interface\<close>

datatype Resolution = VGA | HD | FullHD

record intrinsics =
  fx :: rat
  fy :: rat
  px :: rat
  py :: rat
  width :: nat
  height :: nat

text \<open>
  The attributes both adapters carry. \<open>intr\<close> is assigned by each adapter's own
  constructor; the others by \<^verbatim>\<open>Camera.__init__\<close>.
\<close>

record camera =
  camera_name :: string
  rgb_resolution :: Resolution
  depth_resolution :: Resolution
  fps :: int
  serial_number :: string
  intr :: intrinsics

definition no_intrinsics :: intrinsics where
  "no_intrinsics = \<lparr>fx = 0, fy = 0, px = 0, py = 0, width = 0, height = 0\<rparr>"

text \<open>
  Modelled from the spec: \<^verbatim>\<open>Camera.__init__\<close> of CameraInterface.py, which is not
  among the sources. It stores the constructor parameters (both adapters read
  \<^verbatim>\<open>self.serial_number\<close>, \<^verbatim>\<open>self.fps\<close> and \<^verbatim>\<open>self.rgb_resolution\<close> after it).
\<close>

definition Camera_init ::
  "string \<Rightarrow> Resolution \<Rightarrow> Resolution \<Rightarrow> int \<Rightarrow> string \<Rightarrow> camera" where
  "Camera_init name rgb_res depth_res fps_arg serial =
     \<lparr>camera_name = name, rgb_resolution = rgb_res, depth_resolution = depth_res,
      fps = fps_arg, serial_number = serial, intr = no_intrinsics\<rparr>"

subsection \<open>numpy arrays\<close>

text \<open>
  An array is its shape and its elements in row-major order; the element type is the
  dtype. A \<^verbatim>\<open>float64\<close> is modelled by the rational it stands for and its arithmetic
  by exact arithmetic.
\<close>

record 'a ndarray =
  shape :: "nat list"
  data :: "'a list"

type_synonym float64 = rat

definition trunc :: "rat \<Rightarrow> int" where
  "trunc x = (if 0 \<le> x then \<lfloor>x\<rfloor> else \<lceil>x\<rceil>)"

text \<open>
  The cast of a float to \<^verbatim>\<open>np.uint16\<close>: the fraction is dropped. Outside the range
  of 16 bits the C cast behind it is undefined; the model keeps the low 16 bits.
\<close>

definition to_uint16 :: "float64 \<Rightarrow> 16 word" where
  "to_uint16 x = word_of_int (trunc x)"

definition from_uint16 :: "16 word \<Rightarrow> float64" where
  "from_uint16 x = of_nat (unat x)"

text \<open>\<^verbatim>\<open>np.ctypeslib.as_array(pdata, shape=shp)\<close> on a pointer to bytes.\<close>

definition as_array :: "8 word list \<Rightarrow> nat list \<Rightarrow> 8 word ndarray" where
  "as_array p shp = \<lparr>shape = shp, data = take (prod_list shp) p\<rparr>"

fun le_pairs :: "8 word list \<Rightarrow> 16 word list" where
  "le_pairs (lo # hi # rest) = (ucast lo OR push_bit 8 (ucast hi)) # le_pairs rest"
| "le_pairs [lo] = []"
| "le_pairs [] = []"

text \<open>\<^verbatim>\<open>a.view(np.uint16)\<close> of a byte array, on a little-endian machine.\<close>

definition view_uint16 :: "8 word ndarray \<Rightarrow> exn + 16 word ndarray" where
  "view_uint16 a =
     (if shape a = [] \<or> odd (last (shape a)) then
        Inl (ValueError ''When changing to a larger dtype, its size must be a divisor of the total size in bytes of the last axis of the array.'')
      else Inr \<lparr>shape = butlast (shape a) @ [last (shape a) div 2], data = le_pairs (data a)\<rparr>)"

text \<open>\<^verbatim>\<open>a[:,:,k]\<close>, read.\<close>

definition channel :: "nat \<Rightarrow> 'a ndarray \<Rightarrow> exn + 'a ndarray" where
  "channel k a =
     (case shape a of
        [h, w, c] \<Rightarrow>
          if k < c then Inr \<lparr>shape = [h, w], data = map (\<lambda>p. data a ! (p * c + k)) [0..<h * w]\<rparr>
          else Inl (IndexError ''index is out of bounds for axis 2'')
      | _ \<Rightarrow> Inl (IndexError ''too many indices for array''))"

text \<open>\<^verbatim>\<open>a[:,:,k] = vs\<close>, written in place; \<open>vs\<close> has one value for each pixel.\<close>

definition set_channel :: "nat \<Rightarrow> 'a list \<Rightarrow> 'a ndarray \<Rightarrow> 'a ndarray" where
  "set_channel k vs a =
     (case shape a of
        [h, w, c] \<Rightarrow>
          \<lparr>shape = shape a,
           data = map (\<lambda>i. if i mod c = k then vs ! (i div c) else data a ! i) [0..<length (data a)]\<rparr>
      | _ \<Rightarrow> a)"

definition then_do :: "exn + 'a \<Rightarrow> ('a \<Rightarrow> exn + 'b) \<Rightarrow> exn + 'b" where
  "then_do r f = (case r of Inl e \<Rightarrow> Inl e | Inr v \<Rightarrow> f v)"

subsection \<open>\<^verbatim>\<open>cv2.normalize(src, dst, alpha, beta, cv2.NORM_MINMAX)\<close>\<close>

text \<open>
  OpenCV's \<^verbatim>\<open>normalize\<close> with \<^verbatim>\<open>NORM_MINMAX\<close> on a 16-bit array, written back into a
  16-bit array: it finds the least and the greatest sample, takes
  \<open>scale = (dmax - dmin) / (smax - smin)\<close>, or \<open>0\<close> when \<open>smax - smin\<close> is not above
  \<^verbatim>\<open>DBL_EPSILON\<close>, and \<open>shift = dmin - smin * scale\<close>, and stores
  \<^verbatim>\<open>saturate_cast<ushort>(src * scale + shift)\<close>, which rounds to the nearest integer,
  halves to the even one.
\<close>

definition DBL_EPSILON :: rat where
  "DBL_EPSILON = 1 / 2 ^ 52"

definition cvRound :: "rat \<Rightarrow> int" where
  "cvRound x =
     (let f = \<lfloor>x\<rfloor>; d = x - of_int f
      in if d < 1 / 2 then f else if 1 / 2 < d then f + 1 else if even f then f else f + 1)"

definition saturate_ushort :: "int \<Rightarrow> 16 word" where
  "saturate_ushort i = word_of_int (max 0 (min 65535 i))"

definition cv2_normalize_minmax :: "rat \<Rightarrow> rat \<Rightarrow> 16 word ndarray \<Rightarrow> exn + 16 word ndarray" where
  "cv2_normalize_minmax alpha beta src =
     (case data src of
        [] \<Rightarrow> Inl (cv2_error ''minMaxIdx: empty array'')
      | x # xs \<Rightarrow>
          let smin = from_uint16 (fold min xs x);
              smax = from_uint16 (fold max xs x);
              dmin = min alpha beta;
              dmax = max alpha beta;
              scale = (dmax - dmin) * (if DBL_EPSILON < smax - smin then 1 / (smax - smin) else 0);
              shift = dmin - smin * scale
          in Inr \<lparr>shape = shape src,
                  data = map (\<lambda>v. saturate_ushort (cvRound (from_uint16 v * scale + shift))) (data src)\<rparr>)"

text \<open>\<^verbatim>\<open>np.uint8(a)\<close> of a 16-bit array keeps the low byte of each element.\<close>

definition np_uint8 :: "16 word ndarray \<Rightarrow> 8 word ndarray" where
  "np_uint8 a = \<lparr>shape = shape a, data = map ucast (data a)\<rparr>"

section \<open>Helios.py\<close>

subsection \<open>The device layer (arena\_api)\<close>

text \<open>
  A device as \<^verbatim>\<open>system.create_device()\<close> hands it out: the registers of its node
  map and of its stream node map that the adapter reads or writes, and whether it
  streams. \<open>Scan3dCoordinateScale\<close> and \<open>Scan3dCoordinateOffset\<close> are read
  through the selector register.
\<close>

record helios_device =
  DeviceSerialNumber :: string
  CalibFocalLengthX :: rat
  CalibFocalLengthY :: rat
  CalibOpticalCenterX :: rat
  CalibOpticalCenterY :: rat
  Width :: nat
  Height :: nat
  PixelFormat :: string
  Scan3dConfidenceThresholdEnable :: bool
  Scan3dAmplitudeGain :: rat
  Scan3dCoordinateSelector :: string
  coordinate_scale :: "string \<Rightarrow> rat"
  coordinate_offset :: "string \<Rightarrow> rat"
  StreamBufferHandlingMode :: string
  StreamAutoNegotiatePacketSize :: bool
  StreamPacketResendEnable :: bool
  streaming :: bool

definition Scan3dCoordinateScale :: "helios_device \<Rightarrow> rat" where
  "Scan3dCoordinateScale d = coordinate_scale d (Scan3dCoordinateSelector d)"

definition Scan3dCoordinateOffset :: "helios_device \<Rightarrow> rat" where
  "Scan3dCoordinateOffset d = coordinate_offset d (Scan3dCoordinateSelector d)"

record buffer =
  pdata :: "8 word list"
  buf_height :: nat
  buf_width :: nat
  bits_per_pixel :: nat

text \<open>
  What the device layer answers is not decided by the adapter, so it is a parameter:
  the answer of the \<open>k\<close>-th call of each function the adapter calls.
\<close>

record arena_api =
  create_device_result :: "nat \<Rightarrow> helios_device list"
  get_buffer_result :: "nat \<Rightarrow> exn + buffer"
  destroy_device_result :: "nat \<Rightarrow> exn option"


subsection \<open>\<^verbatim>\<open>Helios.__init__\<close>: waiting for a device\<close>

definition tries_max :: nat where
  "tries_max = 6"

definition sleep_time_secs :: nat where
  "sleep_time_secs = 3"

text \<open>One turn of the inner \<^verbatim>\<open>for sec_count in range(sleep_time_secs)\<close>.\<close>

definition sleep_second :: "nat \<Rightarrow> world \<Rightarrow> world" where
  "sleep_second sec_count w =
     emit (Print (Seconds_passed (sec_count + 1) sec_count)) (emit (Sleep 1) w)"

text \<open>The branch \<^verbatim>\<open>if not devices\<close> up to, not including, \<^verbatim>\<open>tries += 1\<close>.\<close>

definition wait_before_retry :: "nat \<Rightarrow> world \<Rightarrow> world" where
  "wait_before_retry tries w =
     fold sleep_second [0..<sleep_time_secs]
       (emit (Print (Try_waiting (tries + 1) tries_max sleep_time_secs)) w)"

definition system_create_device :: "arena_api \<Rightarrow> world \<Rightarrow> world" where
  "system_create_device sdk w =
     emit (Call create_device) (w\<lparr>create_calls := create_calls w + 1\<rparr>)"

text \<open>
  The \<^verbatim>\<open>while tries < tries_max ... else\<close> loop. \<open>None\<close> is the \<^verbatim>\<open>else\<close> branch
  of the loop, taken when the condition fails without a \<^verbatim>\<open>break\<close>.
\<close>

function wait_for_device ::
  "arena_api \<Rightarrow> nat \<Rightarrow> world \<Rightarrow> helios_device list option \<times> world" where
  "wait_for_device sdk tries w =
     (if tries < tries_max then
        if create_device_result sdk (create_calls w) = [] then
          wait_for_device sdk (tries + 1) (wait_before_retry tries (system_create_device sdk w))
        else
          (Some (create_device_result sdk (create_calls w)),
           emit (Print (Created_devices (length (create_device_result sdk (create_calls w)))))
             (system_create_device sdk w))
      else (None, w))"
  by pat_completeness auto
termination
  by (relation "measure (\<lambda>(sdk, tries, w). tries_max - tries)") auto

declare wait_for_device.simps [simp del]

subsection \<open>\<^verbatim>\<open>Helios.__init__\<close>\<close>

record Helios = camera +
  pipeline :: helios_device
  scale_A :: rat
  offset_A :: rat
  scale_B :: rat
  offset_B :: rat
  scale_C :: rat
  offset_C :: rat

text \<open>
  Lines 38 to 81, for the device \<open>d0 = devices[0]\<close>. The registers are written in the
  order of the source; each scale and offset is read under the selector written just
  before.
\<close>

definition configure_device :: "camera \<Rightarrow> helios_device \<Rightarrow> Helios" where
  "configure_device self d0 =
     (let d1 = d0\<lparr>Scan3dConfidenceThresholdEnable := False, Scan3dAmplitudeGain := 5,
                  PixelFormat := ''Coord3D_ABCY16'',
                  StreamBufferHandlingMode := ''NewestOnly'',
                  StreamAutoNegotiatePacketSize := True,
                  StreamPacketResendEnable := True\<rparr>;
          dA = d1\<lparr>Scan3dCoordinateSelector := ''CoordinateA''\<rparr>;
          dB = dA\<lparr>Scan3dCoordinateSelector := ''CoordinateB''\<rparr>;
          dC = dB\<lparr>Scan3dCoordinateSelector := ''CoordinateC''\<rparr>
      in \<lparr>camera_name = camera_name self,
          rgb_resolution = rgb_resolution self,
          depth_resolution = depth_resolution self,
          fps = fps self,
          serial_number = DeviceSerialNumber d0,
          intr = \<lparr>fx = CalibFocalLengthX d0, fy = CalibFocalLengthY d0,
                  px = CalibOpticalCenterX d0, py = CalibOpticalCenterY d0,
                  width = Width d0, height = Height d0\<rparr>,
          pipeline = dC\<lparr>streaming := True\<rparr>,
          scale_A = Scan3dCoordinateScale dA, offset_A = Scan3dCoordinateOffset dA,
          scale_B = Scan3dCoordinateScale dB, offset_B = Scan3dCoordinateOffset dB,
          scale_C = Scan3dCoordinateScale dC, offset_C = Scan3dCoordinateOffset dC\<rparr>)"

definition Helios_init ::
  "arena_api \<Rightarrow> Resolution \<Rightarrow> Resolution \<Rightarrow> int \<Rightarrow> string \<Rightarrow> bool \<Rightarrow> world
     \<Rightarrow> (exn + Helios) \<times> world" where
  "Helios_init sdk rgb_res depth_res fps_arg serial depth_in_meters w =
     (let self = Camera_init ''LucidVision Helios'' rgb_res depth_res fps_arg serial
      in case wait_for_device sdk 0 w of
           (None, w1) \<Rightarrow>
             (Inl (Exception ''No device found! Please connect a device and run the example again.''), w1)
         | (Some devices, w1) \<Rightarrow>
             (case devices of
                [] \<Rightarrow> (Inl (IndexError ''list index out of range''), w1)
              | d0 # others \<Rightarrow>
                  (let new = configure_device self d0
                   in (Inr new,
                       emit (Print (Camera_configured (camera_name new) (serial_number new)))
                         (emit (Call start_stream) w1)))))"

subsection \<open>\<^verbatim>\<open>Helios.__del__\<close>\<close>

definition Helios_del :: "arena_api \<Rightarrow> Helios \<Rightarrow> world \<Rightarrow> (exn + unit) \<times> world" where
  "Helios_del sdk self w =
     (let w1 = emit (Call destroy_device) (w\<lparr>destroy_calls := destroy_calls w + 1\<rparr>)
      in case destroy_device_result sdk (destroy_calls w) of
           None \<Rightarrow> (Inr (), emit (Print (Camera_closed (camera_name self) (serial_number self))) w1)
         | Some (RuntimeError msg) \<Rightarrow> (Inr (), emit (Print (Exception_report ''RuntimeError'' msg)) w1)
         | Some e \<Rightarrow> (Inl e, w1))"

subsection \<open>Frames of the Helios\<close>

text \<open>
  The first three lines of every retrieval: \<^verbatim>\<open>get_buffer\<close>, the private copy,
  \<^verbatim>\<open>requeue_buffer\<close>.
\<close>

definition copy_next_buffer :: "arena_api \<Rightarrow> world \<Rightarrow> (exn + buffer) \<times> world" where
  "copy_next_buffer sdk w =
     (let w1 = emit (Call get_buffer) (w\<lparr>buffer_calls := buffer_calls w + 1\<rparr>)
      in case get_buffer_result sdk (buffer_calls w) of
           Inl e \<Rightarrow> (Inl e, w1)
         | Inr item \<Rightarrow> (Inr item, emit (Call requeue_buffer) w1))"

text \<open>
  \<^verbatim>\<open>np.ctypeslib.as_array(item.pdata, shape=(item.height, item.width,
  int(item.bits_per_pixel / 8))).view(np.uint16)\<close>
\<close>

definition npndarray :: "buffer \<Rightarrow> exn + 16 word ndarray" where
  "npndarray item =
     view_uint16 (as_array (pdata item) [buf_height item, buf_width item, bits_per_pixel item div 8])"

text \<open>
  \<^verbatim>\<open>intensity = np.array(a[:,:,3], dtype=np.uint16)\<close>,
  \<^verbatim>\<open>cv2.normalize(intensity, intensity, 0, 255, cv2.NORM_MINMAX)\<close>,
  \<^verbatim>\<open>intensity = np.uint8(intensity)\<close>
\<close>

definition normalized_intensity :: "16 word ndarray \<Rightarrow> exn + 8 word ndarray" where
  "normalized_intensity a =
     then_do (channel 3 a) (\<lambda>intensity.
     then_do (cv2_normalize_minmax 0 255 intensity) (\<lambda>intensity.
     Inr (np_uint8 intensity)))"

text \<open>\<^verbatim>\<open>a[:,:,2] = a[:,:,2] * self.scale_C + self.offset_C\<close>\<close>

definition scale_depth :: "Helios \<Rightarrow> 16 word ndarray \<Rightarrow> exn + 16 word ndarray" where
  "scale_depth self a =
     then_do (channel 2 a) (\<lambda>z.
     Inr (set_channel 2 (map (\<lambda>v. to_uint16 (from_uint16 v * scale_C self + offset_C self)) (data z)) a))"

definition Helios_get_rgb ::
  "arena_api \<Rightarrow> Helios \<Rightarrow> world \<Rightarrow> (exn + 8 word ndarray) \<times> Helios \<times> world" where
  "Helios_get_rgb sdk self w =
     (case copy_next_buffer sdk w of
        (Inl e, w1) \<Rightarrow> (Inl e, self, w1)
      | (Inr item, w1) \<Rightarrow> (then_do (npndarray item) normalized_intensity, self, w1))"

definition Helios_get_depth ::
  "arena_api \<Rightarrow> Helios \<Rightarrow> world \<Rightarrow> (exn + 16 word ndarray) \<times> Helios \<times> world" where
  "Helios_get_depth sdk self w =
     (case copy_next_buffer sdk w of
        (Inl e, w1) \<Rightarrow> (Inl e, self, w1)
      | (Inr item, w1) \<Rightarrow>
          (then_do (npndarray item) (\<lambda>a.
           then_do (scale_depth self a) (\<lambda>a.
           channel 2 a)), self, w1))"

definition Helios_get_frames ::
  "arena_api \<Rightarrow> Helios \<Rightarrow> world
     \<Rightarrow> (exn + 8 word ndarray \<times> 16 word ndarray) \<times> Helios \<times> world" where
  "Helios_get_frames sdk self w =
     (case copy_next_buffer sdk w of
        (Inl e, w1) \<Rightarrow> (Inl e, self, w1)
      | (Inr item, w1) \<Rightarrow>
          (then_do (npndarray item) (\<lambda>a.
           then_do (scale_depth self a) (\<lambda>a.
           then_do (channel 2 a) (\<lambda>depth.
           then_do (normalized_intensity a) (\<lambda>intensity.
           Inr (intensity, depth))))), self, w1))"

definition Helios_get_aligned_frames ::
  "arena_api \<Rightarrow> Helios \<Rightarrow> world
     \<Rightarrow> (exn + 8 word ndarray \<times> 16 word ndarray) \<times> Helios \<times> world" where
  "Helios_get_aligned_frames sdk self w = Helios_get_frames sdk self w"

section \<open>IntelRealsense.py\<close>

subsection \<open>The device layer (pyrealsense2)\<close>

text \<open>The intrinsics object of the color stream's profile.\<close>

record rs_intrinsics =
  rs_fx :: rat
  rs_fy :: rat
  rs_ppx :: rat
  rs_ppy :: rat
  rs_width :: nat
  rs_height :: nat

text \<open>
  A frame set holds at most one frame of each stream; a missing frame is the empty
  frame, which is false in a condition. A frame is the array its \<^verbatim>\<open>get_data()\<close>
  gives to numpy: 16-bit samples for \<open>z16\<close>, bytes for \<open>bgr8\<close>.
\<close>

record rs_frameset =
  get_depth_frame :: "16 word ndarray option"
  get_color_frame :: "8 word ndarray option"

text \<open>
  As for the Helios, the answers of the device layer are a parameter: what
  \<^verbatim>\<open>pipeline.start\<close> answers to a configuration, what the \<open>k\<close>-th
  \<^verbatim>\<open>wait_for_frames\<close> and the \<open>k\<close>-th \<^verbatim>\<open>stop\<close> answer, what \<^verbatim>\<open>align.process\<close>
  makes of a frame set, and what reading or writing an option of the second sensor
  of the active device answers.
\<close>

record realsense_api =
  pipeline_start_result :: "rs_config \<Rightarrow> exn + rs_intrinsics"
  wait_for_frames_result :: "nat \<Rightarrow> exn + rs_frameset"
  align_process_result :: "rs_frameset \<Rightarrow> rs_frameset"
  pipeline_stop_result :: "nat \<Rightarrow> exn option"
  set_option_result :: "string \<Rightarrow> rat \<Rightarrow> exn option"
  get_option_result :: "string \<Rightarrow> exn + rat"

subsection \<open>\<^verbatim>\<open>IntelRealsense.__init__\<close>\<close>

record IntelRealsense = camera +
  mm2m_conversion :: int

text \<open>Lines 15 to 25: the configuration handed to \<^verbatim>\<open>pipeline.start\<close>.\<close>

definition requested_config :: "camera \<Rightarrow> rs_config" where
  "requested_config self =
     \<lparr>enabled_device = (if serial_number self \<noteq> [] then Some (serial_number self) else None),
      enabled_streams =
        [(stream_depth, 1280, 720, z16, fps self),
         (if rgb_resolution self = HD then (stream_color, 1280, 720, bgr8, fps self)
          else (stream_color, 1920, 1080, bgr8, fps self))]\<rparr>"

definition IntelRealsense_init ::
  "realsense_api \<Rightarrow> Resolution \<Rightarrow> Resolution \<Rightarrow> int \<Rightarrow> string \<Rightarrow> bool \<Rightarrow> world
     \<Rightarrow> (exn + IntelRealsense) \<times> world" where
  "IntelRealsense_init sdk rgb_res depth_res fps_arg serial depth_in_meters w =
     (let self = Camera_init ''Intel Realsense'' rgb_res depth_res fps_arg serial;
          config = requested_config self;
          w1 = emit (Call (pipeline_start config)) w
      in case pipeline_start_result sdk config of
           Inl (RuntimeError msg) \<Rightarrow> (Inl (SystemExit 1), emit (Print Initialization_error) w1)
         | Inl e \<Rightarrow> (Inl e, w1)
         | Inr i \<Rightarrow>
             (Inr \<lparr>camera_name = camera_name self,
                   rgb_resolution = rgb_resolution self,
                   depth_resolution = depth_resolution self,
                   fps = fps self,
                   serial_number = serial_number self,
                   intr = \<lparr>fx = rs_fx i, fy = rs_fy i, px = rs_ppx i, py = rs_ppy i,
                           width = rs_width i, height = rs_height i\<rparr>,
                   mm2m_conversion = (if depth_in_meters then 1000 else 1)\<rparr>,
              emit (Print (Camera_configured (camera_name self) (serial_number self))) w1))"

subsection \<open>\<^verbatim>\<open>IntelRealsense.__del__\<close>\<close>

definition IntelRealsense_del ::
  "realsense_api \<Rightarrow> IntelRealsense \<Rightarrow> world \<Rightarrow> (exn + unit) \<times> world" where
  "IntelRealsense_del sdk self w =
     (let w1 = emit (Call pipeline_stop) (w\<lparr>stop_calls := stop_calls w + 1\<rparr>)
      in case pipeline_stop_result sdk (stop_calls w) of
           None \<Rightarrow> (Inr (), emit (Print (Camera_closed (camera_name self) (serial_number self))) w1)
         | Some (RuntimeError msg) \<Rightarrow> (Inr (), emit (Print (Exception_report ''RuntimeError'' msg)) w1)
         | Some e \<Rightarrow> (Inl e, w1))"

subsection \<open>Frames of the RealSense\<close>

text \<open>
  The four retrieval loops have one shape: call \<^verbatim>\<open>wait_for_frames\<close>, take from the
  frame set what the method looks for, and go round again while a frame it needs is
  empty. \<open>look\<close> is what one turn takes from the frame set: \<open>Inr None\<close> when the
  loop goes round again, \<open>Inl e\<close> when the turn raises. The loop has no bound, so it
  may not return: that is \<open>None\<close>.
\<close>

partial_function (option) wait_until ::
  "realsense_api \<Rightarrow> (rs_frameset \<Rightarrow> exn + 'a option) \<Rightarrow> world \<Rightarrow> ((exn + 'a) \<times> world) option" where
  "wait_until sdk look w =
     (case wait_for_frames_result sdk (frame_calls w) of
        Inl e \<Rightarrow> Some (Inl e, emit (Call wait_for_frames) (w\<lparr>frame_calls := frame_calls w + 1\<rparr>))
      | Inr frames \<Rightarrow>
          (case look frames of
             Inl e \<Rightarrow> Some (Inl e, emit (Call wait_for_frames) (w\<lparr>frame_calls := frame_calls w + 1\<rparr>))
           | Inr None \<Rightarrow>
               wait_until sdk look (emit (Call wait_for_frames) (w\<lparr>frame_calls := frame_calls w + 1\<rparr>))
           | Inr (Some found) \<Rightarrow>
               Some (Inr found, emit (Call wait_for_frames) (w\<lparr>frame_calls := frame_calls w + 1\<rparr>))))"

text \<open>\<^verbatim>\<open>a / m\<close> for a 16-bit array, and for an array of floats: an array of floats.\<close>

definition divide_uint16 :: "16 word ndarray \<Rightarrow> int \<Rightarrow> float64 ndarray" where
  "divide_uint16 a m = \<lparr>shape = shape a, data = map (\<lambda>v. from_uint16 v / of_int m) (data a)\<rparr>"

definition divide_float64 :: "float64 ndarray \<Rightarrow> int \<Rightarrow> float64 ndarray" where
  "divide_float64 a m = \<lparr>shape = shape a, data = map (\<lambda>v. v / of_int m) (data a)\<rparr>"

text \<open>\<^verbatim>\<open>np.asanyarray(a, dtype=np.uint16)\<close> for an array of floats.\<close>

definition asanyarray_uint16 :: "float64 ndarray \<Rightarrow> 16 word ndarray" where
  "asanyarray_uint16 a = \<lparr>shape = shape a, data = map to_uint16 (data a)\<rparr>"

definition look_color :: "rs_frameset \<Rightarrow> exn + 8 word ndarray option" where
  "look_color frames = Inr (get_color_frame frames)"

definition look_depth :: "rs_frameset \<Rightarrow> exn + 16 word ndarray option" where
  "look_depth frames = Inr (get_depth_frame frames)"

definition look_both :: "rs_frameset \<Rightarrow> exn + (16 word ndarray \<times> 8 word ndarray) option" where
  "look_both frames =
     (case get_color_frame frames of
        None \<Rightarrow> Inr None
      | Some c \<Rightarrow>
          (case get_depth_frame frames of
             None \<Rightarrow> Inr None
           | Some d \<Rightarrow> Inr (Some (d, c))))"

text \<open>
  \<^verbatim>\<open>aligned_frames.first(rs.stream.color)\<close> raises when the aligned frame set has no
  color frame; \<^verbatim>\<open>get_depth_frame()\<close> gives the empty frame when it has no depth frame.
\<close>

definition look_aligned ::
  "realsense_api \<Rightarrow> rs_frameset \<Rightarrow> exn + (16 word ndarray \<times> 8 word ndarray) option" where
  "look_aligned sdk frames =
     (let aligned_frames = align_process_result sdk frames
      in case get_color_frame aligned_frames of
           None \<Rightarrow> Inl (RuntimeError ''Frame of requested stream type was not found!'')
         | Some c \<Rightarrow>
             (case get_depth_frame aligned_frames of
                None \<Rightarrow> Inr None
              | Some d \<Rightarrow> Inr (Some (d, c))))"

definition IntelRealsense_get_rgb ::
  "realsense_api \<Rightarrow> IntelRealsense \<Rightarrow> world
     \<Rightarrow> ((exn + 8 word ndarray) \<times> IntelRealsense \<times> world) option" where
  "IntelRealsense_get_rgb sdk self w =
     (case wait_until sdk look_color w of
        None \<Rightarrow> None
      | Some (Inl e, w1) \<Rightarrow> Some (Inl e, self, w1)
      | Some (Inr color_frame, w1) \<Rightarrow> Some (Inr color_frame, self, w1))"

definition IntelRealsense_get_depth ::
  "realsense_api \<Rightarrow> IntelRealsense \<Rightarrow> world
     \<Rightarrow> ((exn + 16 word ndarray) \<times> IntelRealsense \<times> world) option" where
  "IntelRealsense_get_depth sdk self w =
     (case wait_until sdk look_depth w of
        None \<Rightarrow> None
      | Some (Inl e, w1) \<Rightarrow> Some (Inl e, self, w1)
      | Some (Inr depth_frame, w1) \<Rightarrow>
          Some (Inr (asanyarray_uint16 (divide_uint16 depth_frame (mm2m_conversion self))), self, w1))"

text \<open>Lines 85 to 88, and 101 to 104: from the two frames to the returned pair.\<close>

definition color_and_depth ::
  "IntelRealsense \<Rightarrow> 16 word ndarray \<times> 8 word ndarray \<Rightarrow> 8 word ndarray \<times> 16 word ndarray" where
  "color_and_depth self found =
     (case found of
        (depth_frame_cam, color_frame_cam) \<Rightarrow>
          (let depth_frame = divide_uint16 depth_frame_cam (mm2m_conversion self);
               color_frame = color_frame_cam
           in (color_frame, asanyarray_uint16 (divide_float64 depth_frame (mm2m_conversion self)))))"

definition IntelRealsense_get_frames ::
  "realsense_api \<Rightarrow> IntelRealsense \<Rightarrow> world
     \<Rightarrow> ((exn + 8 word ndarray \<times> 16 word ndarray) \<times> IntelRealsense \<times> world) option" where
  "IntelRealsense_get_frames sdk self w =
     (case wait_until sdk look_both w of
        None \<Rightarrow> None
      | Some (Inl e, w1) \<Rightarrow> Some (Inl e, self, w1)
      | Some (Inr found, w1) \<Rightarrow> Some (Inr (color_and_depth self found), self, w1))"

definition IntelRealsense_get_aligned_frames ::
  "realsense_api \<Rightarrow> IntelRealsense \<Rightarrow> world
     \<Rightarrow> ((exn + 8 word ndarray \<times> 16 word ndarray) \<times> IntelRealsense \<times> world) option" where
  "IntelRealsense_get_aligned_frames sdk self w =
     (case wait_until sdk (look_aligned sdk) w of
        None \<Rightarrow> None
      | Some (Inl e, w1) \<Rightarrow> Some (Inl e, self, w1)
      | Some (Inr found, w1) \<Rightarrow> Some (Inr (color_and_depth self found), self, w1))"

subsection \<open>Options of the RealSense\<close>

definition IntelRealsense_set_option ::
  "realsense_api \<Rightarrow> IntelRealsense \<Rightarrow> string \<Rightarrow> rat \<Rightarrow> world
     \<Rightarrow> (exn + unit) \<times> IntelRealsense \<times> world" where
  "IntelRealsense_set_option sdk self opt val w =
     (case set_option_result sdk opt val of
        None \<Rightarrow> (Inr (), self, emit (Print (Option_changed (upper_of opt) (trunc val))) w)
      | Some (TypeError msg) \<Rightarrow> (Inr (), self, emit (Print (Option_not_set ''TypeError'' (str_of opt))) w)
      | Some e \<Rightarrow> (Inl e, self, w))"

definition IntelRealsense_get_option ::
  "realsense_api \<Rightarrow> IntelRealsense \<Rightarrow> string \<Rightarrow> world
     \<Rightarrow> (exn + unit) \<times> IntelRealsense \<times> world" where
  "IntelRealsense_get_option sdk self opt w =
     (case get_option_result sdk opt of
        Inr val \<Rightarrow> (Inr (), self, emit (Print (Option_value (upper_of opt) (trunc val))) w)
      | Inl (TypeError msg) \<Rightarrow> (Inr (), self, emit (Print (Option_not_set ''TypeError'' (upper_of opt))) w)
      | Inl e \<Rightarrow> (Inl e, self, w))"

section \<open>What the claims speak of\<close>

text \<open>The number of channels of an image: an array of two axes has one.\<close>

definition channels :: "'a ndarray \<Rightarrow> nat" where
  "channels a = (case shape a of [h, w] \<Rightarrow> 1 | [h, w, c] \<Rightarrow> c | _ \<Rightarrow> 0)"

text \<open>
  The shape of the array that \<^verbatim>\<open>get_data()\<close> of a frame gives to numpy, for a stream
  enabled with a width, a height and a format: one 16-bit sample for each pixel of a
  \<open>z16\<close> frame, three bytes for each pixel of a \<open>bgr8\<close> frame.
\<close>

definition frame_shape :: "rs_format \<Rightarrow> nat \<Rightarrow> nat \<Rightarrow> nat list" where
  "frame_shape fmt w h = (case fmt of z16 \<Rightarrow> [h, w] | bgr8 \<Rightarrow> [h, w, 3])"

text \<open>The seconds a run has slept, read off its trace.\<close>

fun seconds_slept :: "event list \<Rightarrow> nat" where
  "seconds_slept [] = 0"
| "seconds_slept (Sleep n # es) = n + seconds_slept es"
| "seconds_slept (Print m # es) = seconds_slept es"
| "seconds_slept (Call c # es) = seconds_slept es"

text \<open>
  What one failed discovery attempt of the Helios constructor shows: the call, the
  message of the try, and three times a second of sleep with its message.
\<close>

definition attempt_events :: "nat \<Rightarrow> event list" where
  "attempt_events tries =
     [Call create_device, Print (Try_waiting (tries + 1) 6 3),
      Sleep 1, Print (Seconds_passed 1 0),
      Sleep 1, Print (Seconds_passed 2 1),
      Sleep 1, Print (Seconds_passed 3 2)]"

section \<open>Concrete devices\<close>

text \<open>A world in which nothing has happened yet.\<close>

definition world0 :: world where
  "world0 = \<lparr>trace = [], create_calls = 0, buffer_calls = 0, destroy_calls = 0,
             frame_calls = 0, stop_calls = 0\<rparr>"

text \<open>No Helios is ever found, and no buffer ever arrives.\<close>

definition no_device :: arena_api where
  "no_device =
     \<lparr>create_device_result = (\<lambda>k. []),
      get_buffer_result = (\<lambda>k. Inl (TimeoutError ''no buffer'')),
      destroy_device_result = (\<lambda>k. None)\<rparr>"

text \<open>A Helios with the given serial number, as it is found before it is configured.\<close>

definition helios_unit :: "string \<Rightarrow> helios_device" where
  "helios_unit serial =
     \<lparr>DeviceSerialNumber = serial,
      CalibFocalLengthX = 525, CalibFocalLengthY = 525,
      CalibOpticalCenterX = 320, CalibOpticalCenterY = 240,
      Width = 640, Height = 480,
      PixelFormat = ''Coord3D_ABC16'',
      Scan3dConfidenceThresholdEnable = True,
      Scan3dAmplitudeGain = 1,
      Scan3dCoordinateSelector = ''CoordinateA'',
      coordinate_scale = (\<lambda>axis. 1 / 4),
      coordinate_offset = (\<lambda>axis. 0),
      StreamBufferHandlingMode = ''OldestFirst'',
      StreamAutoNegotiatePacketSize = False,
      StreamPacketResendEnable = False,
      streaming = False\<rparr>"

text \<open>
  Two devices, with serial numbers \<open>A\<close> and \<open>B\<close> in this order, are found at the third
  call of \<^verbatim>\<open>system.create_device()\<close>, and none before.
\<close>

definition two_devices :: arena_api where
  "two_devices =
     \<lparr>create_device_result = (\<lambda>k. if k < 2 then [] else [helios_unit ''A'', helios_unit ''B'']),
      get_buffer_result = (\<lambda>k. Inl (TimeoutError ''no buffer'')),
      destroy_device_result = (\<lambda>k. None)\<rparr>"



text \<open>
  A frame of one row of two pixels: the raw samples of the first pixel are 0, 0,
  1000 and 100, those of the second 0, 0, 2000 and 300.
\<close>

definition two_pixels :: buffer where
  "two_pixels = \<lparr>pdata = [0, 0, 0, 0, 232, 3, 100, 0,  0, 0, 0, 0, 208, 7, 44, 1],
                  buf_height = 1, buf_width = 2, bits_per_pixel = 64\<rparr>"

definition two_pixel_camera :: arena_api where
  "two_pixel_camera =
     \<lparr>create_device_result = (\<lambda>k. [helios_unit ''A'']),
      get_buffer_result = (\<lambda>k. Inr two_pixels),
      destroy_device_result = (\<lambda>k. None)\<rparr>"

text \<open>The adapter that the constructor makes of the device with serial number \<open>A\<close>.\<close>

definition helios_A :: Helios where
  "helios_A = configure_device (Camera_init ''LucidVision Helios'' HD HD 30 []) (helios_unit ''A'')"

text \<open>
  A RealSense that starts with any configuration and hands out, at every call of
  \<^verbatim>\<open>wait_for_frames\<close>, a depth frame of 720 rows of 1280 pixels in which every sample
  is 5000 (five metres, in millimetres) and a black color frame of the same size in
  the format \<open>bgr8\<close>. Its \<^verbatim>\<open>stop\<close> succeeds once and fails afterwards.
\<close>

definition depth_5000 :: "16 word ndarray" where
  "depth_5000 = \<lparr>shape = [720, 1280], data = replicate (720 * 1280) 5000\<rparr>"

definition black_frame :: "8 word ndarray" where
  "black_frame = \<lparr>shape = [720, 1280, 3], data = replicate (720 * 1280 * 3) 0\<rparr>"

definition d435 :: realsense_api where
  "d435 =
     \<lparr>pipeline_start_result =
        (\<lambda>config. Inr \<lparr>rs_fx = 640, rs_fy = 640, rs_ppx = 640, rs_ppy = 360,
                         rs_width = 1280, rs_height = 720\<rparr>),
      wait_for_frames_result =
        (\<lambda>k. Inr \<lparr>get_depth_frame = Some depth_5000, get_color_frame = Some black_frame\<rparr>),
      align_process_result = (\<lambda>frames. frames),
      pipeline_stop_result =
        (\<lambda>k. if k = 0 then None else Some (RuntimeError ''stop() cannot be called before start()'')),
      set_option_result = (\<lambda>opt val. None),
      get_option_result = (\<lambda>opt. Inr 0)\<rparr>"

text \<open>A RealSense whose \<^verbatim>\<open>pipeline.start\<close> refuses every configuration.\<close>

definition unsupported :: realsense_api where
  "unsupported =
     \<lparr>pipeline_start_result = (\<lambda>config. Inl (RuntimeError ''Couldn't resolve requests'')),
      wait_for_frames_result = (\<lambda>k. Inl (RuntimeError ''wait_for_frames cannot be called before start()'')),
      align_process_result = (\<lambda>frames. frames),
      pipeline_stop_result = (\<lambda>k. Some (RuntimeError ''stop() cannot be called before start()'')),
      set_option_result = (\<lambda>opt val. None),
      get_option_result = (\<lambda>opt. Inr 0)\<rparr>"

text \<open>A Helios layer whose \<^verbatim>\<open>destroy_device\<close> succeeds once and fails afterwards.\<close>

definition released_once :: arena_api where
  "released_once =
     \<lparr>create_device_result = (\<lambda>k. [helios_unit ''A'']),
      get_buffer_result = (\<lambda>k. Inr two_pixels),
      destroy_device_result = (\<lambda>k. if k = 0 then None else Some (RuntimeError ''no device''))\<rparr>"

text \<open>
  The adapter that the RealSense constructor makes with the defaults of its
  parameters, as the device \<open>d435\<close> answers.
\<close>

definition d435_adapter :: IntelRealsense where
  "d435_adapter =
     \<lparr>camera_name = ''Intel Realsense'', rgb_resolution = HD, depth_resolution = HD,
      fps = 30, serial_number = [],
      intr = \<lparr>fx = 640, fy = 640, px = 640, py = 360, width = 1280, height = 720\<rparr>,
      mm2m_conversion = 1\<rparr>"

section \<open>The discovery loop of the Helios\<close>

lemma create_calls_fold_sleep: "create_calls (fold sleep_second xs w) = create_calls w"
  by (induction xs arbitrary: w) (auto simp: sleep_second_def emit_def)

lemma create_calls_retry:
  "create_calls (wait_before_retry t (system_create_device sdk w)) = create_calls w + 1"
  by (simp add: wait_before_retry_def system_create_device_def create_calls_fold_sleep emit_def)

lemma retry_world:
  "wait_before_retry t (system_create_device sdk w) =
     w\<lparr>trace := trace w @ attempt_events t, create_calls := create_calls w + 1\<rparr>"
  by (simp add: wait_before_retry_def system_create_device_def sleep_second_def emit_def
      sleep_time_secs_def tries_max_def attempt_events_def upt_rec[of 0] upt_rec[of 1]
      upt_rec[of 2] numeral_3_eq_3 numeral_2_eq_2)

lemma wait_for_device_found:
  "tries + j < tries_max \<Longrightarrow>
   \<forall>k<j. create_device_result sdk (create_calls w + k) = [] \<Longrightarrow>
   create_device_result sdk (create_calls w + j) \<noteq> [] \<Longrightarrow>
   fst (wait_for_device sdk tries w) = Some (create_device_result sdk (create_calls w + j))"
proof (induction j arbitrary: tries w)
  case 0
  then show ?case by (subst wait_for_device.simps) simp
next
  case (Suc j)
  have e: "create_device_result sdk (create_calls w) = []"
    using Suc.prems(2) by (metis add.right_neutral zero_less_Suc)
  let ?w = "wait_before_retry tries (system_create_device sdk w)"
  have c: "create_calls ?w = create_calls w + 1" by (rule create_calls_retry)
  have "fst (wait_for_device sdk (tries + 1) ?w) = Some (create_device_result sdk (create_calls ?w + j))"
  proof (rule Suc.IH)
    show "tries + 1 + j < tries_max" using Suc.prems(1) by simp
    show "\<forall>k<j. create_device_result sdk (create_calls ?w + k) = []"
    proof (intro allI impI)
      fix k assume "k < j"
      then have "Suc k < Suc j" by simp
      then have "create_device_result sdk (create_calls w + Suc k) = []"
        using Suc.prems(2) by blast
      then show "create_device_result sdk (create_calls ?w + k) = []" by (simp add: c)
    qed
    show "create_device_result sdk (create_calls ?w + j) \<noteq> []"
      using Suc.prems(3) c by simp
  qed
  moreover have "tries < tries_max" using Suc.prems(1) by simp
  ultimately show ?case
    using e c by (subst wait_for_device.simps) simp
qed

lemma wait_for_device_none:
  "n = tries_max - tries \<Longrightarrow> tries \<le> tries_max \<Longrightarrow>
   \<forall>k<n. create_device_result sdk (create_calls w + k) = [] \<Longrightarrow>
   wait_for_device sdk tries w =
     (None, w\<lparr>trace := trace w @ concat (map attempt_events [tries..<tries_max]),
              create_calls := create_calls w + n\<rparr>)"
proof (induction n arbitrary: tries w)
  case 0
  then have "\<not> tries < tries_max" by simp
  then show ?case by (subst wait_for_device.simps) simp
next
  case (Suc n)
  have lt: "tries < tries_max" using Suc.prems(1) by simp
  have e: "create_device_result sdk (create_calls w) = []"
    using Suc.prems(3) by (metis add.right_neutral zero_less_Suc)
  let ?w = "wait_before_retry tries (system_create_device sdk w)"
  have w: "?w = w\<lparr>trace := trace w @ attempt_events tries, create_calls := create_calls w + 1\<rparr>"
    by (rule retry_world)
  have "wait_for_device sdk (tries + 1) ?w =
     (None, ?w\<lparr>trace := trace ?w @ concat (map attempt_events [tries + 1..<tries_max]),
              create_calls := create_calls ?w + n\<rparr>)"
  proof (rule Suc.IH)
    show "n = tries_max - (tries + 1)" using Suc.prems(1) by simp
    show "tries + 1 \<le> tries_max" using lt by simp
    show "\<forall>k<n. create_device_result sdk (create_calls ?w + k) = []"
    proof (intro allI impI)
      fix k assume "k < n"
      then have "Suc k < Suc n" by simp
      then have "create_device_result sdk (create_calls w + Suc k) = []"
        using Suc.prems(3) by blast
      then show "create_device_result sdk (create_calls ?w + k) = []"
        by (simp add: w)
    qed
  qed
  then show ?case
    using lt e by (subst wait_for_device.simps) (simp add: w upt_conv_Cons)
qed

lemma wait_for_device_some:
  "fst (wait_for_device sdk tries w) = Some devices \<Longrightarrow>
   \<exists>k<tries_max - tries. create_device_result sdk (create_calls w + k) = devices \<and> devices \<noteq> []"
proof (induction sdk tries w rule: wait_for_device.induct)
  case (1 sdk tries w)
  show ?case
  proof (cases "tries < tries_max")
    case False
    then show ?thesis using "1.prems" by (subst (asm) wait_for_device.simps) simp
  next
    case lt: True
    show ?thesis
    proof (cases "create_device_result sdk (create_calls w) = []")
      case False
      then have "devices = create_device_result sdk (create_calls w)"
        using "1.prems" lt by (subst (asm) wait_for_device.simps) simp
      then show ?thesis using False lt by (intro exI[of _ 0]) simp
    next
      case True
      let ?w = "wait_before_retry tries (system_create_device sdk w)"
      have "fst (wait_for_device sdk (tries + 1) ?w) = Some devices"
        using "1.prems" lt True by (subst (asm) wait_for_device.simps) simp
      from "1.IH"[OF lt True this]
      obtain k where k: "k < tries_max - (tries + 1)"
        "create_device_result sdk (create_calls ?w + k) = devices" "devices \<noteq> []" by blast
      have "create_device_result sdk (create_calls w + Suc k) = devices"
        using k(2) by (simp add: create_calls_retry)
      moreover have "Suc k < tries_max - tries" using k(1) by simp
      ultimately show ?thesis using k(3) by blast
    qed
  qed
qed

section \<open>Arrays: channels, casts and the normalization\<close>

lemma length_le_pairs: "length (le_pairs xs) = length xs div 2"
  by (induction xs rule: le_pairs.induct) auto

lemma pixel_index_bound:
  fixes p n k c :: nat
  assumes "p < n" "k < c"
  shows "p * c + k < n * c"
proof -
  have "p * c + k < (p + 1) * c" using assms(2) by simp
  also have "\<dots> \<le> n * c" using assms(1) by (intro mult_le_mono1) simp
  finally show ?thesis .
qed

lemma npndarray_64:
  "bits_per_pixel item = 64 \<Longrightarrow> length (pdata item) = buf_height item * buf_width item * 8 \<Longrightarrow>
   npndarray item = Inr \<lparr>shape = [buf_height item, buf_width item, 4], data = le_pairs (pdata item)\<rparr>"
  by (simp add: npndarray_def view_uint16_def as_array_def)

lemma channel_3d:
  "shape a = [h, w, c] \<Longrightarrow> k < c \<Longrightarrow>
   channel k a = Inr \<lparr>shape = [h, w], data = map (\<lambda>p. data a ! (p * c + k)) [0..<h * w]\<rparr>"
  by (simp add: channel_def)

lemma shape_set_channel: "shape (set_channel k vs a) = shape a"
  by (simp add: set_channel_def split: list.splits)

lemma nth_set_channel:
  "shape a = [h, w, c] \<Longrightarrow> i < length (data a) \<Longrightarrow>
   data (set_channel k vs a) ! i = (if i mod c = k then vs ! (i div c) else data a ! i)"
  by (simp add: set_channel_def)

lemma channel_set_channel_same:
  assumes "shape a = [h, w, c]" "k < c" "length (data a) = h * w * c" "length vs = h * w"
  shows "channel k (set_channel k vs a) = Inr \<lparr>shape = [h, w], data = vs\<rparr>"
proof -
  have "map (\<lambda>p. data (set_channel k vs a) ! (p * c + k)) [0..<h * w] = vs"
  proof (rule nth_equalityI)
    show "length (map (\<lambda>p. data (set_channel k vs a) ! (p * c + k)) [0..<h * w]) = length vs"
      using assms by simp
  next
    fix p assume "p < length (map (\<lambda>p. data (set_channel k vs a) ! (p * c + k)) [0..<h * w])"
    then have p: "p < h * w" by simp
    have i: "p * c + k < length (data a)"
      using pixel_index_bound[OF p assms(2)] assms(3) by simp
    have "data (set_channel k vs a) ! (p * c + k) = vs ! p"
      using nth_set_channel[OF assms(1) i, of k vs] assms(2) by simp
    then show "map (\<lambda>p. data (set_channel k vs a) ! (p * c + k)) [0..<h * w] ! p = vs ! p"
      using p by simp
  qed
  then show ?thesis
    using assms(1,2) by (simp add: channel_def shape_set_channel)
qed

lemma channel_set_channel_other:
  assumes "shape a = [h, w, c]" "k < c" "j < c" "j \<noteq> k" "length (data a) = h * w * c"
  shows "channel j (set_channel k vs a) = channel j a"
proof -
  have "map (\<lambda>p. data (set_channel k vs a) ! (p * c + j)) [0..<h * w] =
        map (\<lambda>p. data a ! (p * c + j)) [0..<h * w]"
  proof (rule map_cong[OF refl])
    fix p assume "p \<in> set [0..<h * w]"
    then have p: "p < h * w" by simp
    have i: "p * c + j < length (data a)"
      using pixel_index_bound[OF p assms(3)] assms(5) by simp
    show "data (set_channel k vs a) ! (p * c + j) = data a ! (p * c + j)"
      using nth_set_channel[OF assms(1) i, of k vs] assms(3,4) by simp
  qed
  then show ?thesis
    using assms(1,3) by (simp add: channel_def shape_set_channel)
qed

lemma scale_depth_64:
  assumes "shape a = [h, w, 4]" "length (data a) = h * w * 4"
  shows "scale_depth self a =
     Inr (set_channel 2 (map (\<lambda>p. to_uint16 (from_uint16 (data a ! (p * 4 + 2)) * scale_C self + offset_C self)) [0..<h * w]) a)"
  using assms by (simp add: scale_depth_def then_do_def channel_3d comp_def)

lemma fold_min_Min: "fold min xs (x::'a::linorder) = Min (set (x # xs))"
  by (rule Min.set_eq_fold[symmetric])

lemma fold_max_Max: "fold max xs (x::'a::linorder) = Max (set (x # xs))"
  by (rule Max.set_eq_fold[symmetric])

lemma cvRound_of_int: "cvRound (of_int n) = n"
  by (simp add: cvRound_def)

lemma cvRound_range:
  assumes "0 \<le> y" "y \<le> 255"
  shows "0 \<le> cvRound y \<and> cvRound y \<le> 255"
proof -
  have f0: "0 \<le> \<lfloor>y\<rfloor>" using assms(1) by simp
  have f1: "\<lfloor>y\<rfloor> \<le> 255" using assms(2) by (simp add: floor_le_iff) 
  show ?thesis
  proof (cases "y = 255")
    case True
    then have "cvRound y = 255" using cvRound_of_int[of 255] by simp
    then show ?thesis by simp
  next
    case False
    then have "y < 255" using assms(2) by simp
    then have "\<lfloor>y\<rfloor> < 255" by (simp add: floor_less_iff)
    then show ?thesis using f0 by (auto simp: cvRound_def Let_def)
  qed
qed


lemma from_uint16_mono: "a \<le> b \<Longrightarrow> from_uint16 a \<le> from_uint16 b"
proof -
  assume "a \<le> b"
  then have "unat a \<le> unat b" by (simp only: word_le_nat_alt)
  then show ?thesis unfolding from_uint16_def by (rule of_nat_mono)
qed

lemma from_uint16_less: "a < b \<Longrightarrow> from_uint16 a + 1 \<le> from_uint16 b"
proof -
  assume "a < b"
  then have "unat a < unat b" by (simp only: word_less_nat_alt)
  then have "Suc (unat a) \<le> unat b" by (rule Suc_leI)
  then have "(of_nat (Suc (unat a)) :: rat) \<le> of_nat (unat b)" by (rule of_nat_mono)
  then show ?thesis unfolding from_uint16_def by (simp only: of_nat_Suc add.commute)
qed

lemma unat_saturate_ushort: "0 \<le> i \<Longrightarrow> i \<le> 255 \<Longrightarrow> unat (saturate_ushort i) = nat i"
proof -
  assume a: "0 \<le> i" "i \<le> 255"
  then have "max 0 (min 65535 i) = i" by simp
  then have "saturate_ushort i = word_of_int i" by (simp add: saturate_ushort_def)
  moreover have "(word_of_int i :: 16 word) = of_nat (nat i)" using a by simp
  moreover have "unat (of_nat (nat i) :: 16 word) = nat i mod 2 ^ 16"
    by (simp only: unat_of_nat len_of_numeral_defs) simp
  moreover have "nat i mod 2 ^ 16 = nat i" using a by simp
  ultimately show ?thesis by simp
qed

lemma cv2_normalize_minmax_0_255:
  assumes ne: "data src \<noteq> []"
  defines "lo \<equiv> Min (set (data src))" and "hi \<equiv> Max (set (data src))"
  shows "\<exists>dst. cv2_normalize_minmax 0 255 src = Inr dst \<and> shape dst = shape src \<and>
           length (data dst) = length (data src) \<and>
           (\<forall>i<length (data src).
              int (unat (data dst ! i)) =
                (if lo = hi then 0
                 else cvRound ((from_uint16 (data src ! i) - from_uint16 lo) * 255 /
                               (from_uint16 hi - from_uint16 lo))) \<and>
              unat (data dst ! i) \<le> 255)"
proof -
  obtain x xs where d: "data src = x # xs" using ne by (cases "data src") auto
  have lo: "fold min xs x = lo" unfolding lo_def d by (rule fold_min_Min)
  have hi: "fold max xs x = hi" unfolding hi_def d by (rule fold_max_Max)
  define scale where "scale = (255::rat) * (if DBL_EPSILON < from_uint16 hi - from_uint16 lo
      then 1 / (from_uint16 hi - from_uint16 lo) else 0)"
  define shift where "shift = 0 - from_uint16 lo * scale"
  define dst where "dst = \<lparr>shape = shape src,
      data = map (\<lambda>v. saturate_ushort (cvRound (from_uint16 v * scale + shift))) (data src)\<rparr>"
  have res: "cv2_normalize_minmax 0 255 src = Inr dst"
    unfolding cv2_normalize_minmax_def d
    by (simp add: lo hi Let_def dst_def scale_def shift_def d del: fold_simps)
  have lohi: "lo \<le> hi" unfolding lo_def hi_def using ne by (simp add: Min_le_iff)
  have vals: "int (unat (data dst ! i)) =
        (if lo = hi then 0
         else cvRound ((from_uint16 (data src ! i) - from_uint16 lo) * 255 /
                       (from_uint16 hi - from_uint16 lo))) \<and> unat (data dst ! i) \<le> 255"
    if i: "i < length (data src)" for i
  proof -
    let ?v = "data src ! i"
    have el: "data dst ! i = saturate_ushort (cvRound (from_uint16 ?v * scale + shift))"
      using i by (simp add: dst_def)
    have mem: "?v \<in> set (data src)" using i by simp
    have lv: "lo \<le> ?v" unfolding lo_def using mem by simp
    have vh: "?v \<le> hi" unfolding hi_def using mem by simp
    show ?thesis
    proof (cases "lo = hi")
      case True
      then have "scale = 0" by (simp add: scale_def DBL_EPSILON_def)
      then have "data dst ! i = saturate_ushort (cvRound 0)" by (simp add: el shift_def)
      then have "data dst ! i = 0" using cvRound_of_int[of 0] by (simp add: saturate_ushort_def)
      then show ?thesis using True by simp
    next
      case False
      then have "lo < hi" using lohi by simp
      then have gap: "1 \<le> from_uint16 hi - from_uint16 lo"
        using from_uint16_less[of lo hi] by simp
      have "DBL_EPSILON < 1" by (simp add: DBL_EPSILON_def)
      then have eps: "DBL_EPSILON < from_uint16 hi - from_uint16 lo" using gap by simp
      have sc: "scale = 255 / (from_uint16 hi - from_uint16 lo)" by (simp add: scale_def eps)
      let ?y = "(from_uint16 ?v - from_uint16 lo) * 255 / (from_uint16 hi - from_uint16 lo)"
      have y: "from_uint16 ?v * scale + shift = ?y"
        by (simp add: sc shift_def diff_divide_distrib left_diff_distrib)
      have y0: "0 \<le> ?y" using from_uint16_mono[OF lv] gap by simp
      have "from_uint16 ?v - from_uint16 lo \<le> from_uint16 hi - from_uint16 lo"
        using from_uint16_mono[OF vh] by simp
      then have y1: "?y \<le> 255" using gap by (simp add: field_simps)
      have r: "0 \<le> cvRound ?y \<and> cvRound ?y \<le> 255" by (rule cvRound_range[OF y0 y1])
      have "unat (data dst ! i) = nat (cvRound ?y)"
        using r by (simp add: el y unat_saturate_ushort)
      moreover have "nat (cvRound ?y) \<le> 255" using r by linarith
      moreover have "int (nat (cvRound ?y)) = cvRound ?y" using r by simp
      ultimately show ?thesis using False by simp
    qed
  qed
  show ?thesis
    using res vals by (intro exI[of _ dst]) (simp add: dst_def)
qed

section \<open>Decoding a buffer of the Helios\<close>

lemma copy_next_buffer_item:
  "get_buffer_result sdk (buffer_calls w) = Inr item \<Longrightarrow>
   copy_next_buffer sdk w =
     (Inr item, w\<lparr>buffer_calls := buffer_calls w + 1,
                  trace := trace w @ [Call get_buffer, Call requeue_buffer]\<rparr>)"
  by (simp add: copy_next_buffer_def emit_def Let_def)

lemma unat_ucast_byte: "unat (x :: 16 word) \<le> 255 \<Longrightarrow> unat (ucast x :: 8 word) = unat x"
proof -
  assume a: "unat x \<le> 255"
  have "unat (ucast x :: 8 word) = take_bit 8 (unat x)"
    by (simp add: unsigned_ucast_eq)
  also have "\<dots> = unat x mod 2 ^ 8" by (simp add: take_bit_eq_mod)
  also have "\<dots> = unat x" using a by simp
  finally show ?thesis .
qed

lemma depth_of_buffer:
  assumes "bits_per_pixel item = 64"
    and "length (pdata item) = buf_height item * buf_width item * 8"
  shows "then_do (npndarray item) (\<lambda>a. then_do (scale_depth self a) (channel 2)) =
     Inr \<lparr>shape = [buf_height item, buf_width item],
          data = map (\<lambda>p. to_uint16 (from_uint16 (le_pairs (pdata item) ! (p * 4 + 2)) * scale_C self
                                       + offset_C self))
                   [0..<buf_height item * buf_width item]\<rparr>"
proof -
  let ?a = "\<lparr>shape = [buf_height item, buf_width item, 4], data = le_pairs (pdata item)\<rparr>"
  have np: "npndarray item = Inr ?a" by (rule npndarray_64[OF assms])
  have sh: "shape ?a = [buf_height item, buf_width item, 4]" by simp
  have len: "length (data ?a) = buf_height item * buf_width item * 4"
    using assms(2) by (simp add: length_le_pairs)
  show ?thesis
    by (simp only: np then_do_def sum.case scale_depth_64[OF sh len]
        channel_set_channel_same[OF sh _ len]) (simp add: channel_set_channel_same[OF sh _ len])
qed

lemma intensity_of_array:
  assumes sh: "shape a = [h, w, 4]" and pos: "0 < h * w"
    and s: "samples = map (\<lambda>p. data a ! (p * 4 + 3)) [0..<h * w]"
  shows "\<exists>img. normalized_intensity a = Inr img \<and> shape img = [h, w] \<and>
           length (data img) = h * w \<and>
           (\<forall>p<h * w.
              int (unat (data img ! p)) =
                (if Min (set samples) = Max (set samples) then 0
                 else cvRound ((from_uint16 (samples ! p) - from_uint16 (Min (set samples))) * 255 /
                               (from_uint16 (Max (set samples)) - from_uint16 (Min (set samples))))))"
proof -
  let ?src = "\<lparr>shape = [h, w], data = samples\<rparr>"
  have ch: "channel 3 a = Inr ?src" using sh by (simp add: channel_3d s)
  have ne: "data ?src \<noteq> []" using pos by (simp add: s)
  from cv2_normalize_minmax_0_255[OF ne]
  obtain dst where dst: "cv2_normalize_minmax 0 255 ?src = Inr dst" "shape dst = shape ?src"
    "length (data dst) = length (data ?src)"
    and vals: "\<forall>i<length (data ?src).
              int (unat (data dst ! i)) =
                (if Min (set (data ?src)) = Max (set (data ?src)) then 0
                 else cvRound ((from_uint16 (data ?src ! i) - from_uint16 (Min (set (data ?src)))) * 255 /
                               (from_uint16 (Max (set (data ?src))) - from_uint16 (Min (set (data ?src)))))) \<and>
              unat (data dst ! i) \<le> 255"
    by blast
  have len: "length samples = h * w" by (simp add: s)
  have r: "normalized_intensity a = Inr (np_uint8 dst)"
    by (simp add: normalized_intensity_def then_do_def ch dst(1))
  have "int (unat (data (np_uint8 dst) ! p)) =
                (if Min (set samples) = Max (set samples) then 0
                 else cvRound ((from_uint16 (samples ! p) - from_uint16 (Min (set samples))) * 255 /
                               (from_uint16 (Max (set samples)) - from_uint16 (Min (set samples)))))"
    if p: "p < h * w" for p
  proof -
    have pl: "p < length (data ?src)" using p len by simp
    have small: "unat (data dst ! p) \<le> 255" using vals pl by blast
    have "data (np_uint8 dst) ! p = ucast (data dst ! p)"
      using p dst(3) len by (simp add: np_uint8_def)
    then have "unat (data (np_uint8 dst) ! p) = unat (data dst ! p)"
      using unat_ucast_byte[OF small] by simp
    then show ?thesis using vals pl by simp
  qed
  then show ?thesis
    using r dst(2,3) len by (intro exI[of _ "np_uint8 dst"]) (simp add: np_uint8_def)
qed

lemma normalized_intensity_scale_depth:
  assumes "shape a = [h, w, 4]" "length (data a) = h * w * 4"
  shows "normalized_intensity (set_channel 2 vs a) = normalized_intensity a"
  using channel_set_channel_other[OF assms(1), of 2 3 vs] assms(2)
  by (simp add: normalized_intensity_def)

lemma Helios_get_depth_image:
  assumes "get_buffer_result sdk (buffer_calls w) = Inr item"
    and "bits_per_pixel item = 64"
    and "length (pdata item) = buf_height item * buf_width item * 8"
  shows "fst (Helios_get_depth sdk self w) =
     Inr \<lparr>shape = [buf_height item, buf_width item],
          data = map (\<lambda>p. to_uint16 (from_uint16 (le_pairs (pdata item) ! (p * 4 + 2)) * scale_C self
                                       + offset_C self))
                   [0..<buf_height item * buf_width item]\<rparr>"
  using depth_of_buffer[OF assms(2,3), of self]
  by (simp add: Helios_get_depth_def copy_next_buffer_item[OF assms(1)])

lemma Helios_get_rgb_image:
  assumes "get_buffer_result sdk (buffer_calls w) = Inr item"
    and "bits_per_pixel item = 64"
    and "length (pdata item) = buf_height item * buf_width item * 8"
  shows "fst (Helios_get_rgb sdk self w) =
     normalized_intensity \<lparr>shape = [buf_height item, buf_width item, 4], data = le_pairs (pdata item)\<rparr>"
  by (simp add: Helios_get_rgb_def copy_next_buffer_item[OF assms(1)] npndarray_64[OF assms(2,3)]
      then_do_def)

lemma Helios_get_frames_images:
  assumes "get_buffer_result sdk (buffer_calls w) = Inr item"
    and "bits_per_pixel item = 64"
    and "length (pdata item) = buf_height item * buf_width item * 8"
  shows "fst (Helios_get_frames sdk self w) =
     then_do (fst (Helios_get_rgb sdk self w)) (\<lambda>intensity.
     then_do (fst (Helios_get_depth sdk self w)) (\<lambda>depth. Inr (intensity, depth)))"
proof -
  let ?a = "\<lparr>shape = [buf_height item, buf_width item, 4], data = le_pairs (pdata item)\<rparr>"
  have sh: "shape ?a = [buf_height item, buf_width item, 4]" by simp
  have len: "length (data ?a) = buf_height item * buf_width item * 4"
    using assms(3) by (simp add: length_le_pairs)
  have d: "then_do (npndarray item) (\<lambda>a. then_do (scale_depth self a) (channel 2)) =
      fst (Helios_get_depth sdk self w)"
    by (simp add: Helios_get_depth_def copy_next_buffer_item[OF assms(1)])
  obtain depth where depth: "fst (Helios_get_depth sdk self w) = Inr depth"
    using Helios_get_depth_image[OF assms] by blast
  show ?thesis
    using d
    by (simp add: Helios_get_frames_def copy_next_buffer_item[OF assms(1)]
        Helios_get_rgb_image[OF assms] npndarray_64[OF assms(2,3)] scale_depth_64[OF sh len]
        normalized_intensity_scale_depth[OF sh len] depth then_do_def
        split: sum.splits)
qed


lemma Helios_intensity_image:
  assumes buf: "get_buffer_result sdk (buffer_calls w) = Inr item"
    "bits_per_pixel item = 64"
    "length (pdata item) = buf_height item * buf_width item * 8"
    and pos: "0 < buf_height item * buf_width item"
    and s: "samples = map (\<lambda>p. le_pairs (pdata item) ! (p * 4 + 3)) [0..<buf_height item * buf_width item]"
  shows "\<exists>img depth. fst (Helios_get_rgb sdk self w) = Inr img \<and>
           fst (Helios_get_frames sdk self w) = Inr (img, depth) \<and>
           shape img = [buf_height item, buf_width item] \<and>
           length (data img) = buf_height item * buf_width item \<and>
           (\<forall>p<buf_height item * buf_width item.
              int (unat (data img ! p)) =
                (if Min (set samples) = Max (set samples) then 0
                 else cvRound ((from_uint16 (samples ! p) - from_uint16 (Min (set samples))) * 255 /
                               (from_uint16 (Max (set samples)) - from_uint16 (Min (set samples))))))"
proof -
  let ?a = "\<lparr>shape = [buf_height item, buf_width item, 4], data = le_pairs (pdata item)\<rparr>"
  have sh: "shape ?a = [buf_height item, buf_width item, 4]" by simp
  have s': "samples = map (\<lambda>p. data ?a ! (p * 4 + 3)) [0..<buf_height item * buf_width item]"
    by (simp add: s)
  from intensity_of_array[OF sh pos s']
  obtain img where img: "normalized_intensity ?a = Inr img"
    "shape img = [buf_height item, buf_width item]"
    "length (data img) = buf_height item * buf_width item"
    "\<forall>p<buf_height item * buf_width item.
              int (unat (data img ! p)) =
                (if Min (set samples) = Max (set samples) then 0
                 else cvRound ((from_uint16 (samples ! p) - from_uint16 (Min (set samples))) * 255 /
                               (from_uint16 (Max (set samples)) - from_uint16 (Min (set samples)))))"
    by blast
  have rgb: "fst (Helios_get_rgb sdk self w) = Inr img"
    by (simp only: Helios_get_rgb_image[OF buf] img(1))
  obtain depth where depth: "fst (Helios_get_depth sdk self w) = Inr depth"
    using Helios_get_depth_image[OF buf] by blast
  have frames: "fst (Helios_get_frames sdk self w) = Inr (img, depth)"
    by (simp add: Helios_get_frames_images[OF buf] rgb depth then_do_def)
  show ?thesis using rgb frames img(2,3,4) by blast
qed





section \<open>Waiting for frames of the RealSense, and dividing them\<close>

lemma wait_until_found:
  "\<forall>k<j. \<exists>fs. wait_for_frames_result sdk (frame_calls w + k) = Inr fs \<and> look fs = Inr None \<Longrightarrow>
   wait_for_frames_result sdk (frame_calls w + j) = Inr frames \<Longrightarrow>
   look frames = Inr (Some found) \<Longrightarrow>
   wait_until sdk look w =
     Some (Inr found, w\<lparr>frame_calls := frame_calls w + j + 1,
                        trace := trace w @ replicate (j + 1) (Call wait_for_frames)\<rparr>)"
proof (induction j arbitrary: w)
  case 0
  then show ?case
    by (subst wait_until.simps) (simp add: emit_def)
next
  case (Suc j)
  let ?w = "emit (Call wait_for_frames) (w\<lparr>frame_calls := frame_calls w + 1\<rparr>)"
  obtain fs where fs: "wait_for_frames_result sdk (frame_calls w) = Inr fs" "look fs = Inr None"
    using Suc.prems(1) by (metis add.right_neutral zero_less_Suc)
  have c: "frame_calls ?w = frame_calls w + 1" by (simp add: emit_def)
  have "wait_until sdk look ?w =
     Some (Inr found, ?w\<lparr>frame_calls := frame_calls ?w + j + 1,
                         trace := trace ?w @ replicate (j + 1) (Call wait_for_frames)\<rparr>)"
  proof (rule Suc.IH)
    show "\<forall>k<j. \<exists>fs. wait_for_frames_result sdk (frame_calls ?w + k) = Inr fs \<and> look fs = Inr None"
    proof (intro allI impI)
      fix k assume "k < j"
      then have "Suc k < Suc j" by simp
      then have "\<exists>fs. wait_for_frames_result sdk (frame_calls w + Suc k) = Inr fs \<and> look fs = Inr None"
        using Suc.prems(1) by blast
      then show "\<exists>fs. wait_for_frames_result sdk (frame_calls ?w + k) = Inr fs \<and> look fs = Inr None"
        by (simp add: emit_def)
    qed
    show "wait_for_frames_result sdk (frame_calls ?w + j) = Inr frames"
      using Suc.prems(2) by (simp add: emit_def)
    show "look frames = Inr (Some found)" by (rule Suc.prems(3))
  qed
  then show ?case
    by (subst wait_until.simps) (simp add: fs emit_def replicate_append_same)
qed

lemma trunc_of_nat: "trunc (of_nat n) = int n"
  by (simp add: trunc_def)

lemma trunc_nat_div: "trunc (of_nat n / of_nat m) = int (n div m)"
proof -
  have "(0 :: rat) \<le> of_nat n / of_nat m" by simp
  then show ?thesis by (simp only: trunc_def if_True floor_divide_of_nat_eq)
qed

lemma to_uint16_nat: "to_uint16 (of_nat (unat x)) = x"
  by (simp only: to_uint16_def trunc_of_nat) simp

text \<open>Dividing a 16-bit sample by 1: the sample.\<close>

lemma divided_by_one: "to_uint16 (from_uint16 x / of_int 1) = x"
  by (simp only: from_uint16_def of_int_1 div_by_1 to_uint16_nat)

text \<open>Dividing a 16-bit sample by 1000, once: the whole thousands of the sample.\<close>

lemma divided_by_thousand: "to_uint16 (from_uint16 x / of_int 1000) = x div 1000"
proof -
  have "(of_int 1000 :: rat) = of_nat 1000" by simp
  then have "trunc (from_uint16 x / of_int 1000) = int (unat x div 1000)"
    by (simp only: from_uint16_def trunc_nat_div)
  moreover have "unat x div 1000 = unat (x div 1000)" by (simp add: unat_div)
  ultimately have "to_uint16 (from_uint16 x / of_int 1000) = word_of_int (int (unat (x div 1000)))"
    by (simp only: to_uint16_def)
  then show ?thesis by simp
qed

text \<open>Dividing a 16-bit sample by 1000, twice: nothing is left of it.\<close>

lemma twice_divided_is_zero: "to_uint16 (from_uint16 x / of_int 1000 / of_int 1000) = 0"
proof -
  have "unat x < 2 ^ 16" using unsigned_less[of x, where 'a = nat] by simp
  then have "(of_nat (unat x) :: rat) < of_nat (2 ^ 16)" by (simp only: of_nat_less_iff)
  then have lt: "from_uint16 x < 65536" unfolding from_uint16_def by simp
  have ge: "0 \<le> from_uint16 x" unfolding from_uint16_def by (rule of_nat_0_le_iff)
  have g: "0 \<le> from_uint16 x / of_int 1000 / of_int 1000" using ge by simp
  moreover have "from_uint16 x / of_int 1000 / of_int 1000 < 1" using lt by simp
  ultimately have "\<lfloor>from_uint16 x / of_int 1000 / of_int 1000\<rfloor> = 0" by (simp only: floor_eq_iff) simp
  then show ?thesis using g by (simp only: to_uint16_def trunc_def if_True) simp
qed

lemma twice_divided_by_one: "to_uint16 (from_uint16 x / of_int 1 / of_int 1) = x"
  by (simp only: from_uint16_def of_int_1 div_by_1 to_uint16_nat)

lemma IntelRealsense_get_rgb_found:
  assumes "\<forall>k<j. \<exists>fs. wait_for_frames_result sdk (frame_calls w + k) = Inr fs \<and> get_color_frame fs = None"
    and "wait_for_frames_result sdk (frame_calls w + j) = Inr frames"
    and "get_color_frame frames = Some color"
  shows "IntelRealsense_get_rgb sdk self w =
     Some (Inr color, self,
           w\<lparr>frame_calls := frame_calls w + j + 1,
             trace := trace w @ replicate (j + 1) (Call wait_for_frames)\<rparr>)"
proof -
  have "wait_until sdk look_color w =
     Some (Inr color, w\<lparr>frame_calls := frame_calls w + j + 1,
                        trace := trace w @ replicate (j + 1) (Call wait_for_frames)\<rparr>)"
    using wait_until_found[of j sdk w look_color frames color] assms
    by (simp add: look_color_def)
  then show ?thesis by (simp add: IntelRealsense_get_rgb_def)
qed

lemma IntelRealsense_get_depth_found:
  assumes "\<forall>k<j. \<exists>fs. wait_for_frames_result sdk (frame_calls w + k) = Inr fs \<and> get_depth_frame fs = None"
    and "wait_for_frames_result sdk (frame_calls w + j) = Inr frames"
    and "get_depth_frame frames = Some raw"
  shows "IntelRealsense_get_depth sdk self w =
     Some (Inr \<lparr>shape = shape raw,
                data = map (\<lambda>v. to_uint16 (from_uint16 v / of_int (mm2m_conversion self))) (data raw)\<rparr>,
           self,
           w\<lparr>frame_calls := frame_calls w + j + 1,
             trace := trace w @ replicate (j + 1) (Call wait_for_frames)\<rparr>)"
proof -
  have "wait_until sdk look_depth w =
     Some (Inr raw, w\<lparr>frame_calls := frame_calls w + j + 1,
                      trace := trace w @ replicate (j + 1) (Call wait_for_frames)\<rparr>)"
    using wait_until_found[of j sdk w look_depth frames raw] assms
    by (simp add: look_depth_def)
  then show ?thesis
    by (simp add: IntelRealsense_get_depth_def asanyarray_uint16_def divide_uint16_def comp_def)
qed

lemma color_and_depth_values:
  "color_and_depth self (raw, color) =
     (color, \<lparr>shape = shape raw,
              data = map (\<lambda>v. to_uint16 (from_uint16 v / of_int (mm2m_conversion self)
                                            / of_int (mm2m_conversion self))) (data raw)\<rparr>)"
  by (simp add: color_and_depth_def asanyarray_uint16_def divide_uint16_def divide_float64_def
      comp_def Let_def)

lemma IntelRealsense_get_frames_found:
  assumes "wait_for_frames_result sdk (frame_calls w) = Inr frames"
    and "get_depth_frame frames = Some raw"
    and "get_color_frame frames = Some color"
  shows "IntelRealsense_get_frames sdk self w =
     Some (Inr (color_and_depth self (raw, color)), self,
           w\<lparr>frame_calls := frame_calls w + 1, trace := trace w @ [Call wait_for_frames]\<rparr>)"
proof -
  have "wait_until sdk look_both w =
     Some (Inr (raw, color), w\<lparr>frame_calls := frame_calls w + 0 + 1,
                      trace := trace w @ replicate (0 + 1) (Call wait_for_frames)\<rparr>)"
    using wait_until_found[of 0 sdk w look_both frames "(raw, color)"] assms
    by (simp add: look_both_def)
  then show ?thesis
    by (simp add: IntelRealsense_get_frames_def)
qed

lemma IntelRealsense_get_aligned_frames_found:
  assumes "wait_for_frames_result sdk (frame_calls w) = Inr frames"
    and "get_depth_frame (align_process_result sdk frames) = Some raw"
    and "get_color_frame (align_process_result sdk frames) = Some color"
  shows "IntelRealsense_get_aligned_frames sdk self w =
     Some (Inr (color_and_depth self (raw, color)), self,
           w\<lparr>frame_calls := frame_calls w + 1, trace := trace w @ [Call wait_for_frames]\<rparr>)"
proof -
  have "wait_until sdk (look_aligned sdk) w =
     Some (Inr (raw, color), w\<lparr>frame_calls := frame_calls w + 0 + 1,
                      trace := trace w @ replicate (0 + 1) (Call wait_for_frames)\<rparr>)"
    using wait_until_found[of 0 sdk w "look_aligned sdk" frames "(raw, color)"] assms
    by (simp add: look_aligned_def)
  then show ?thesis
    by (simp add: IntelRealsense_get_aligned_frames_def)
qed

lemma IntelRealsense_frames_self:
  "IntelRealsense_get_rgb sdk self w = Some (r, self', w') \<Longrightarrow> self' = self"
  "IntelRealsense_get_depth sdk self w = Some (r2, self', w') \<Longrightarrow> self' = self"
  "IntelRealsense_get_frames sdk self w = Some (r3, self', w') \<Longrightarrow> self' = self"
  "IntelRealsense_get_aligned_frames sdk self w = Some (r3, self', w') \<Longrightarrow> self' = self"
  by (auto simp: IntelRealsense_get_rgb_def IntelRealsense_get_depth_def
      IntelRealsense_get_frames_def IntelRealsense_get_aligned_frames_def
      split: option.splits sum.splits prod.splits)

lemma IntelRealsense_option_self:
  "fst (snd (IntelRealsense_set_option sdk self opt val w)) = self"
  "fst (snd (IntelRealsense_get_option sdk self opt w)) = self"
  by (auto simp: IntelRealsense_set_option_def IntelRealsense_get_option_def
      split: option.splits sum.splits exn.splits)

lemma Helios_self:
  "fst (snd (Helios_get_rgb hsdk h w)) = h"
  "fst (snd (Helios_get_depth hsdk h w)) = h"
  "fst (snd (Helios_get_frames hsdk h w)) = h"
  "fst (snd (Helios_get_aligned_frames hsdk h w)) = h"
  by (auto simp: Helios_get_rgb_def Helios_get_depth_def Helios_get_frames_def
      Helios_get_aligned_frames_def split: prod.splits sum.splits)


lemma d435_init:
  "IntelRealsense_init d435 HD HD 30 [] m world0 =
     (Inr \<lparr>camera_name = ''Intel Realsense'', rgb_resolution = HD, depth_resolution = HD,
            fps = 30, serial_number = [],
            intr = \<lparr>fx = 640, fy = 640, px = 640, py = 360, width = 1280, height = 720\<rparr>,
            mm2m_conversion = (if m then 1000 else 1)\<rparr>,
      world0\<lparr>trace :=
        [Call (pipeline_start \<lparr>enabled_device = None,
                 enabled_streams = [(stream_depth, 1280, 720, z16, 30),
                                    (stream_color, 1280, 720, bgr8, 30)]\<rparr>),
         Print (Camera_configured ''Intel Realsense'' [])]\<rparr>)"
  by (simp add: IntelRealsense_init_def d435_def Let_def Camera_init_def requested_config_def
      emit_def world0_def)


lemma d435_frames:
  "wait_for_frames_result d435 k =
     Inr \<lparr>get_depth_frame = Some depth_5000, get_color_frame = Some black_frame\<rparr>"
  "align_process_result d435 frames = frames"
  by (simp_all add: d435_def)

lemma requested_color_stream:
  "(stream_color, wd, ht, fmt, rate) \<in> set (enabled_streams (requested_config cam)) \<Longrightarrow>
   fmt = bgr8 \<and> rate = fps cam \<and>
   (wd, ht) = (if rgb_resolution cam = HD then (1280, 720) else (1920, 1080))"
  by (auto simp: requested_config_def split: if_splits)

section \<open>The constructor of the Helios\<close>

lemma seconds_slept_append: "seconds_slept (xs @ ys) = seconds_slept xs + seconds_slept ys"
  by (induction xs rule: seconds_slept.induct) auto

lemma seconds_slept_attempt: "seconds_slept (attempt_events t) = 3"
  by (simp add: attempt_events_def)

lemma seconds_slept_attempts: "seconds_slept (concat (map attempt_events ts)) = 3 * length ts"
  by (induction ts) (auto simp: seconds_slept_append seconds_slept_attempt)

lemma wait_for_device_none_iff:
  "fst (wait_for_device sdk 0 w) = None \<longleftrightarrow>
   (\<forall>k<tries_max. create_device_result sdk (create_calls w + k) = [])"
proof
  assume n: "fst (wait_for_device sdk 0 w) = None"
  show "\<forall>k<tries_max. create_device_result sdk (create_calls w + k) = []"
  proof (rule ccontr)
    assume "\<not> (\<forall>k<tries_max. create_device_result sdk (create_calls w + k) = [])"
    then obtain k where k: "k < tries_max \<and> create_device_result sdk (create_calls w + k) \<noteq> []"
      by blast
    define j where "j = (LEAST k. k < tries_max \<and> create_device_result sdk (create_calls w + k) \<noteq> [])"
    have j: "j < tries_max \<and> create_device_result sdk (create_calls w + j) \<noteq> []"
      unfolding j_def by (rule LeastI[of _ k]) (rule k)
    have least: "\<forall>i<j. create_device_result sdk (create_calls w + i) = []"
    proof (intro allI impI)
      fix i assume i: "i < j"
      then have "\<not> (i < tries_max \<and> create_device_result sdk (create_calls w + i) \<noteq> [])"
        unfolding j_def by (rule not_less_Least)
      then show "create_device_result sdk (create_calls w + i) = []" using i j by simp
    qed
    have "fst (wait_for_device sdk 0 w) = Some (create_device_result sdk (create_calls w + j))"
      using wait_for_device_found[of 0 j sdk w] j least by simp
    then show False using n by simp
  qed
next
  assume "\<forall>k<tries_max. create_device_result sdk (create_calls w + k) = []"
  then show "fst (wait_for_device sdk 0 w) = None"
    using wait_for_device_none[of tries_max 0 sdk w] by simp
qed

lemma Helios_init_raises:
  assumes "fst (Helios_init sdk rr dr f serial m w) = Inl e"
  shows "fst (wait_for_device sdk 0 w) = None"
proof (cases "wait_for_device sdk 0 w")
  case (Pair r w1)
  show ?thesis
  proof (cases r)
    case None
    then show ?thesis using Pair by simp
  next
    case (Some devices)
    then have "fst (wait_for_device sdk 0 w) = Some devices" using Pair by simp
    then have "devices \<noteq> []" using wait_for_device_some by blast
    then obtain d0 others where "devices = d0 # others" by (cases devices) auto
    then show ?thesis using assms Pair Some by (simp add: Helios_init_def Let_def)
  qed
qed

text \<open>
  C4. When the six calls of \<^verbatim>\<open>system.create_device()\<close> that the constructor can make
  all find nothing, the constructor makes exactly these six calls, sleeps three times
  one second after each of them (the trace shows call, message and three sleeps, six
  times over), and then raises the no-device exception: it has slept 6 * 3 seconds
  by then, which is not less than 5 * 3. It raises only in this case: whenever the
  constructor raises, all six calls have found nothing.
\<close>

theorem Helios_init_retry_budget:
  "((\<forall>k<tries_max. create_device_result sdk (create_calls w + k) = []) \<longrightarrow>
      Helios_init sdk rr dr f serial m w =
        (Inl (Exception ''No device found! Please connect a device and run the example again.''),
         w\<lparr>trace := trace w @ concat (map attempt_events [0..<6]),
           create_calls := create_calls w + 6\<rparr>) \<and>
      seconds_slept (trace (snd (Helios_init sdk rr dr f serial m w))) =
        seconds_slept (trace w) + 6 * 3) \<and>
   ((\<exists>e. fst (Helios_init sdk rr dr f serial m w) = Inl e) \<longrightarrow>
      (\<forall>k<tries_max. create_device_result sdk (create_calls w + k) = []))"
proof (intro conjI impI)
  assume a: "\<forall>k<tries_max. create_device_result sdk (create_calls w + k) = []"
  have n: "wait_for_device sdk 0 w =
     (None, w\<lparr>trace := trace w @ concat (map attempt_events [0..<tries_max]),
              create_calls := create_calls w + tries_max\<rparr>)"
    using wait_for_device_none[of tries_max 0 sdk w] a by simp
  show r: "Helios_init sdk rr dr f serial m w =
        (Inl (Exception ''No device found! Please connect a device and run the example again.''),
         w\<lparr>trace := trace w @ concat (map attempt_events [0..<6]),
           create_calls := create_calls w + 6\<rparr>)"
    by (simp add: Helios_init_def n Let_def) (simp add: tries_max_def)
  show "seconds_slept (trace (snd (Helios_init sdk rr dr f serial m w))) =
        seconds_slept (trace w) + 6 * 3"
    by (simp only: r snd_conv) (simp add: seconds_slept_append seconds_slept_attempts)
next
  assume "\<exists>e. fst (Helios_init sdk rr dr f serial m w) = Inl e"
  then have "fst (wait_for_device sdk 0 w) = None" using Helios_init_raises by blast
  then show "\<forall>k<tries_max. create_device_result sdk (create_calls w + k) = []"
    by (simp only: wait_for_device_none_iff)
qed

theorem Helios_init_retry_budget_witness:
  "Helios_init no_device HD HD 30 [] False world0 =
     (Inl (Exception ''No device found! Please connect a device and run the example again.''),
      world0\<lparr>trace := concat (map attempt_events [0..<6]), create_calls := 6\<rparr>) \<and>
   seconds_slept (trace (snd (Helios_init no_device HD HD 30 [] False world0))) = 18"
  using Helios_init_retry_budget[where sdk = no_device and w = world0 and rr = HD and dr = HD
      and f = 30 and serial = "[]" and m = False]
  by (simp add: no_device_def world0_def seconds_slept_attempts)

text \<open>
  C10. Whatever serial number the caller asks for: when a call of
  \<^verbatim>\<open>system.create_device()\<close> within the six tries is the first to find devices, the
  constructor returns an adapter whose \<open>pipeline\<close> is the first device of that
  answer (with the registers the constructor writes), whose \<open>serial_number\<close> is the
  serial number this device reports, and which is the same adapter for any other
  serial number \<open>serial'\<close> asked for.
\<close>

theorem Helios_init_first_device:
  assumes "j < tries_max"
    and "\<forall>k<j. create_device_result sdk (create_calls w + k) = []"
    and "create_device_result sdk (create_calls w + j) = d # others"
  shows "\<exists>self. fst (Helios_init sdk rr dr f serial m w) = Inr self \<and>
           fst (Helios_init sdk rr dr f serial' m w) = Inr self \<and>
           serial_number self = DeviceSerialNumber d \<and>
           pipeline self =
             d\<lparr>Scan3dConfidenceThresholdEnable := False, Scan3dAmplitudeGain := 5,
               PixelFormat := ''Coord3D_ABCY16'', StreamBufferHandlingMode := ''NewestOnly'',
               StreamAutoNegotiatePacketSize := True, StreamPacketResendEnable := True,
               Scan3dCoordinateSelector := ''CoordinateC'', streaming := True\<rparr>"
proof -
  have "fst (wait_for_device sdk 0 w) = Some (d # others)"
    using wait_for_device_found[of 0 j sdk w] assms by simp
  then obtain w1 where w1: "wait_for_device sdk 0 w = (Some (d # others), w1)"
    by (cases "wait_for_device sdk 0 w") auto
  have same: "configure_device (Camera_init n rr dr f serial) d =
              configure_device (Camera_init n rr dr f serial') d" for n
    by (simp add: configure_device_def Camera_init_def)
  show ?thesis
    apply (rule exI[of _ "configure_device (Camera_init ''LucidVision Helios'' rr dr f serial) d"])
    apply (simp add: Helios_init_def w1 Let_def same[of _])
    apply (simp add: configure_device_def Let_def)
    done
qed

theorem Helios_init_first_device_witness:
  "map_sum id serial_number (fst (Helios_init two_devices HD HD 30 ''B'' False world0)) = Inr ''A'' \<and>
   fst (Helios_init two_devices HD HD 30 ''B'' False world0) =
     fst (Helios_init two_devices HD HD 30 ''A'' False world0)"
  using Helios_init_first_device[where j = 2 and sdk = two_devices and w = world0
      and d = "helios_unit ''A''" and others = "[helios_unit ''B'']" and rr = HD and dr = HD
      and f = 30 and serial = "''B''" and serial' = "''A''" and m = False]
  by (auto simp: two_devices_def world0_def tries_max_def helios_unit_def)

text \<open>
  C5. For the Helios, \<^verbatim>\<open>get_aligned_frames\<close> is \<^verbatim>\<open>get_frames\<close>: for every device
  layer, adapter and world, both give the same result, the same adapter and the same
  world.
\<close>

theorem Helios_aligned_frames_are_frames:
  "Helios_get_aligned_frames sdk self w = Helios_get_frames sdk self w"
  by (simp add: Helios_get_aligned_frames_def)

section \<open>The images of the Helios\<close>




section \<open>The depth images\<close>



text \<open>
  C1 fails on the code. With \<open>depth_in_meters\<close> set, \<^verbatim>\<open>get_frames\<close> and
  \<^verbatim>\<open>get_aligned_frames\<close> divide the depth frame by 1000 in line 85 (line 101) and
  again in line 88 (line 104): for a frame in which every raw sample is 5000, both
  return a depth image of zeros, where dividing once gives 5, as \<^verbatim>\<open>get_depth\<close> returns
  for the same frame.
\<close>

theorem IntelRealsense_frames_divided_twice:
  "(case IntelRealsense_init d435 HD HD 30 [] True world0 of
      (Inr self, w) \<Rightarrow>
        map_option fst (IntelRealsense_get_frames d435 self w) =
          Some (Inr (black_frame, \<lparr>shape = [720, 1280], data = replicate (720 * 1280) 0\<rparr>)) \<and>
        map_option fst (IntelRealsense_get_aligned_frames d435 self w) =
          Some (Inr (black_frame, \<lparr>shape = [720, 1280], data = replicate (720 * 1280) 0\<rparr>)) \<and>
        map_option fst (IntelRealsense_get_depth d435 self w) =
          Some (Inr \<lparr>shape = [720, 1280], data = replicate (720 * 1280) 5\<rparr>)
    | (Inl e, w) \<Rightarrow> False)"
proof -
  let ?self = "\<lparr>camera_name = ''Intel Realsense'', rgb_resolution = HD, depth_resolution = HD,
            fps = 30, serial_number = [],
            intr = \<lparr>fx = 640, fy = 640, px = 640, py = 360, width = 1280, height = 720\<rparr>,
            mm2m_conversion = 1000\<rparr>"
  let ?w = "world0\<lparr>trace :=
        [Call (pipeline_start \<lparr>enabled_device = None,
                 enabled_streams = [(stream_depth, 1280, 720, z16, 30),
                                    (stream_color, 1280, 720, bgr8, 30)]\<rparr>),
         Print (Camera_configured ''Intel Realsense'' [])]\<rparr>"
  have i: "IntelRealsense_init d435 HD HD 30 [] True world0 = (Inr ?self, ?w)"
    using d435_init[of True] by simp
  have once: "to_uint16 (from_uint16 5000 / 1000) = 5"
    using divided_by_thousand[of 5000] by simp
  have twice: "to_uint16 (from_uint16 5000 / 1000000) = 0"
    using twice_divided_is_zero[of 5000] by simp
  have f: "map_option fst (IntelRealsense_get_frames d435 ?self ?w) =
          Some (Inr (black_frame, \<lparr>shape = [720, 1280], data = replicate (720 * 1280) 0\<rparr>))"
    by (simp add: IntelRealsense_get_frames_found[OF d435_frames(1)] color_and_depth_values
        depth_5000_def twice)
  have a: "map_option fst (IntelRealsense_get_aligned_frames d435 ?self ?w) =
          Some (Inr (black_frame, \<lparr>shape = [720, 1280], data = replicate (720 * 1280) 0\<rparr>))"
    by (simp add: IntelRealsense_get_aligned_frames_found[OF d435_frames(1)] d435_frames(2)
        color_and_depth_values depth_5000_def twice)
  have d: "map_option fst (IntelRealsense_get_depth d435 ?self ?w) =
          Some (Inr \<lparr>shape = [720, 1280], data = replicate (720 * 1280) 5\<rparr>)"
    using IntelRealsense_get_depth_found[of 0 d435 ?w _ depth_5000 ?self]
    by (simp add: d435_frames depth_5000_def once)
  show ?thesis by (simp only: i prod.case sum.case f a d)
qed

section \<open>Starting and stopping\<close>

text \<open>
  C7. When \<^verbatim>\<open>pipeline.start\<close> raises a RuntimeError for the configuration that the
  constructor asks for, the constructor calls it this one time, prints the
  diagnostic message and ends the process with \<^verbatim>\<open>exit(1)\<close>: it returns no adapter,
  lets no other exception out and tries no other configuration.
\<close>

theorem IntelRealsense_init_start_fails:
  assumes "pipeline_start_result sdk (requested_config (Camera_init ''Intel Realsense'' rr dr f serial))
             = Inl (RuntimeError msg)"
  shows "IntelRealsense_init sdk rr dr f serial m w =
     (Inl (SystemExit 1),
      w\<lparr>trace := trace w @
         [Call (pipeline_start (requested_config (Camera_init ''Intel Realsense'' rr dr f serial))),
          Print Initialization_error]\<rparr>)"
  using assms by (simp add: IntelRealsense_init_def Let_def emit_def)

theorem IntelRealsense_init_start_fails_witness:
  "IntelRealsense_init unsupported FullHD HD 30 [] False world0 =
     (Inl (SystemExit 1),
      world0\<lparr>trace :=
         [Call (pipeline_start \<lparr>enabled_device = None,
                 enabled_streams = [(stream_depth, 1280, 720, z16, 30),
                                    (stream_color, 1920, 1080, bgr8, 30)]\<rparr>),
          Print Initialization_error]\<rparr>)"
  using IntelRealsense_init_start_fails[where sdk = unsupported and rr = FullHD and dr = HD
      and f = 30 and serial = "[]" and m = False and w = world0
      and msg = "''Couldn't resolve requests''"]
  by (simp add: unsupported_def requested_config_def Camera_init_def world0_def)

text \<open>
  C8. For both adapters: when the release of the device succeeds at the first
  teardown and the device layer answers the release of the released device with a
  RuntimeError, the second teardown (of the same adapter or of another one) returns
  normally, as the first did; it makes the call, prints the report of the exception
  and changes nothing else.
\<close>

theorem teardown_twice:
  assumes "destroy_device_result hsdk (destroy_calls hw) = None"
    and "destroy_device_result hsdk (destroy_calls hw + 1) = Some (RuntimeError hmsg)"
    and "pipeline_stop_result rsdk (stop_calls rw) = None"
    and "pipeline_stop_result rsdk (stop_calls rw + 1) = Some (RuntimeError rmsg)"
  shows "Helios_del hsdk hself hw =
           (Inr (), hw\<lparr>destroy_calls := destroy_calls hw + 1,
                       trace := trace hw @ [Call destroy_device,
                                            Print (Camera_closed (camera_name hself) (serial_number hself))]\<rparr>) \<and>
         Helios_del hsdk hself' (snd (Helios_del hsdk hself hw)) =
           (Inr (), (snd (Helios_del hsdk hself hw))
              \<lparr>destroy_calls := destroy_calls hw + 2,
               trace := trace (snd (Helios_del hsdk hself hw)) @
                  [Call destroy_device, Print (Exception_report ''RuntimeError'' hmsg)]\<rparr>) \<and>
         IntelRealsense_del rsdk rself rw =
           (Inr (), rw\<lparr>stop_calls := stop_calls rw + 1,
                       trace := trace rw @ [Call pipeline_stop,
                                            Print (Camera_closed (camera_name rself) (serial_number rself))]\<rparr>) \<and>
         IntelRealsense_del rsdk rself' (snd (IntelRealsense_del rsdk rself rw)) =
           (Inr (), (snd (IntelRealsense_del rsdk rself rw))
              \<lparr>stop_calls := stop_calls rw + 2,
               trace := trace (snd (IntelRealsense_del rsdk rself rw)) @
                  [Call pipeline_stop, Print (Exception_report ''RuntimeError'' rmsg)]\<rparr>)"
  using assms by (simp add: Helios_del_def IntelRealsense_del_def Let_def emit_def)

theorem teardown_twice_witness:
  "Helios_del released_once helios_A (snd (Helios_del released_once helios_A world0)) =
     (Inr (), world0\<lparr>destroy_calls := 2,
        trace := [Call destroy_device, Print (Camera_closed ''LucidVision Helios'' ''A''),
                  Call destroy_device, Print (Exception_report ''RuntimeError'' ''no device'')]\<rparr>) \<and>
   IntelRealsense_del d435 d435_adapter (snd (IntelRealsense_del d435 d435_adapter world0)) =
     (Inr (), world0\<lparr>stop_calls := 2,
        trace := [Call pipeline_stop, Print (Camera_closed ''Intel Realsense'' []),
                  Call pipeline_stop,
                  Print (Exception_report ''RuntimeError'' ''stop() cannot be called before start()'')]\<rparr>)"
proof -
  have h: "destroy_device_result released_once (destroy_calls world0) = None"
    "destroy_device_result released_once (destroy_calls world0 + 1) = Some (RuntimeError ''no device'')"
    by (simp_all add: released_once_def world0_def)
  have r: "pipeline_stop_result d435 (stop_calls world0) = None"
    "pipeline_stop_result d435 (stop_calls world0 + 1) =
       Some (RuntimeError ''stop() cannot be called before start()'')"
    by (simp_all add: d435_def world0_def)
  have n: "camera_name helios_A = ''LucidVision Helios''" "serial_number helios_A = ''A''"
    "camera_name d435_adapter = ''Intel Realsense''" "serial_number d435_adapter = []"
    by (simp_all add: helios_A_def configure_device_def Camera_init_def helios_unit_def Let_def
        d435_adapter_def)
  have t: "Helios_del released_once helios_A world0 =
           (Inr (), world0\<lparr>destroy_calls := destroy_calls world0 + 1,
                       trace := trace world0 @ [Call destroy_device,
                                            Print (Camera_closed (camera_name helios_A) (serial_number helios_A))]\<rparr>) \<and>
         Helios_del released_once helios_A (snd (Helios_del released_once helios_A world0)) =
           (Inr (), (snd (Helios_del released_once helios_A world0))
              \<lparr>destroy_calls := destroy_calls world0 + 2,
               trace := trace (snd (Helios_del released_once helios_A world0)) @
                  [Call destroy_device, Print (Exception_report ''RuntimeError'' ''no device'')]\<rparr>) \<and>
         IntelRealsense_del d435 d435_adapter world0 =
           (Inr (), world0\<lparr>stop_calls := stop_calls world0 + 1,
                       trace := trace world0 @ [Call pipeline_stop,
                                            Print (Camera_closed (camera_name d435_adapter) (serial_number d435_adapter))]\<rparr>) \<and>
         IntelRealsense_del d435 d435_adapter (snd (IntelRealsense_del d435 d435_adapter world0)) =
           (Inr (), (snd (IntelRealsense_del d435 d435_adapter world0))
              \<lparr>stop_calls := stop_calls world0 + 2,
               trace := trace (snd (IntelRealsense_del d435 d435_adapter world0)) @
                  [Call pipeline_stop,
                   Print (Exception_report ''RuntimeError'' ''stop() cannot be called before start()'')]\<rparr>)"
    by (rule teardown_twice[OF h r])
  have t1: "snd (Helios_del released_once helios_A world0) =
      world0\<lparr>destroy_calls := 1,
        trace := [Call destroy_device, Print (Camera_closed ''LucidVision Helios'' ''A'')]\<rparr>"
    using t by (simp add: n world0_def)
  have t2: "snd (IntelRealsense_del d435 d435_adapter world0) =
      world0\<lparr>stop_calls := 1,
        trace := [Call pipeline_stop, Print (Camera_closed ''Intel Realsense'' [])]\<rparr>"
    using t by (simp add: n world0_def)
  show ?thesis
    using t unfolding t1 t2 by (simp add: world0_def)
qed

section \<open>The color images\<close>

text \<open>
  C2, as amended. \<^verbatim>\<open>get_rgb\<close> of the Helios returns, for a buffer with at least one
  pixel, an 8-bit image of one channel, of the shape of the buffer. \<^verbatim>\<open>get_rgb\<close> of the
  RealSense returns, once a frame set with a color frame arrives, the array of that
  color frame as it is; the constructor asks for the color stream in the format
  \<open>bgr8\<close> only, and the array of a frame of such a stream is an 8-bit array of
  three channels.
\<close>

theorem get_rgb_channels:
  assumes "get_buffer_result hsdk (buffer_calls hw) = Inr item"
    and "bits_per_pixel item = 64"
    and "length (pdata item) = buf_height item * buf_width item * 8"
    and "0 < buf_height item * buf_width item"
    and "\<forall>k<j. \<exists>fs. wait_for_frames_result rsdk (frame_calls rw + k) = Inr fs \<and> get_color_frame fs = None"
    and "wait_for_frames_result rsdk (frame_calls rw + j) = Inr frames"
    and "get_color_frame frames = Some color"
    and "(stream_color, wd, ht, fmt, rate) \<in> set (enabled_streams (requested_config cam))"
    and "shape color = frame_shape fmt wd ht"
  shows "(\<exists>img. fst (Helios_get_rgb hsdk hself hw) = Inr img \<and>
                shape img = [buf_height item, buf_width item] \<and> channels img = 1) \<and>
         (\<exists>w'. IntelRealsense_get_rgb rsdk rself rw = Some (Inr color, rself, w')) \<and>
         fmt = bgr8 \<and> shape color = [ht, wd, 3] \<and> channels color = 3"
proof -
  from Helios_intensity_image[OF assms(1-4) refl, of hself]
  obtain img where img: "fst (Helios_get_rgb hsdk hself hw) = Inr img"
    "shape img = [buf_height item, buf_width item]" by blast
  have c1: "channels img = 1" by (simp add: channels_def img(2))
  have f: "fmt = bgr8" using requested_color_stream[OF assms(8)] by simp
  have s: "shape color = [ht, wd, 3]" using assms(9) by (simp add: f frame_shape_def)
  have c3: "channels color = 3" by (simp add: channels_def s)
  show ?thesis
    using img c1 f s c3 IntelRealsense_get_rgb_found[OF assms(5-7), of rself] by blast
qed

theorem get_rgb_channels_witness:
  "map_sum id channels (fst (Helios_get_rgb two_pixel_camera helios_A world0)) = Inr 1 \<and>
   map_option (\<lambda>r. map_sum id channels (fst r)) (IntelRealsense_get_rgb d435 d435_adapter world0)
     = Some (Inr 3)"
  using get_rgb_channels[where hsdk = two_pixel_camera and hw = world0 and item = two_pixels
      and hself = helios_A and j = 0 and rsdk = d435 and rw = world0
      and frames = "\<lparr>get_depth_frame = Some depth_5000, get_color_frame = Some black_frame\<rparr>"
      and color = black_frame and wd = 1280 and ht = 720 and fmt = bgr8 and rate = 30
      and cam = "Camera_init ''Intel Realsense'' HD HD 30 []" and rself = d435_adapter]
  by (auto simp: two_pixel_camera_def two_pixels_def world0_def d435_def black_frame_def
      requested_config_def Camera_init_def frame_shape_def)

text \<open>
  C2 as stated fails for the RealSense: the adapter constructed with the defaults
  returns from \<^verbatim>\<open>get_rgb\<close> the color frame of 1280 by 720 pixels in the format
  \<open>bgr8\<close>, an array of three channels, not of one.
\<close>

theorem IntelRealsense_get_rgb_three_channels:
  "(case IntelRealsense_init d435 HD HD 30 [] False world0 of
      (Inr self, w) \<Rightarrow>
        map_option (\<lambda>r. map_sum id channels (fst r)) (IntelRealsense_get_rgb d435 self w) = Some (Inr 3) \<and>
        map_option (\<lambda>r. map_sum id channels (fst r)) (IntelRealsense_get_rgb d435 self w) \<noteq> Some (Inr 1)
    | (Inl e, w) \<Rightarrow> False)"
proof -
  have "IntelRealsense_get_rgb d435 self w =
     Some (Inr black_frame, self,
           w\<lparr>frame_calls := frame_calls w + 0 + 1,
             trace := trace w @ replicate (0 + 1) (Call wait_for_frames)\<rparr>)" for self w
    using IntelRealsense_get_rgb_found[of 0 d435 w
        "\<lparr>get_depth_frame = Some depth_5000, get_color_frame = Some black_frame\<rparr>"
        black_frame self]
    by (simp add: d435_frames)
  then show ?thesis
    by (simp add: d435_init channels_def black_frame_def)
qed

section \<open>What an adapter keeps\<close>

text \<open>
  C9. Every frame retrieval and every option operation of the two classes hands
  back the adapter with the intrinsics and the serial number it had: for the
  RealSense \<^verbatim>\<open>get_rgb\<close>, \<^verbatim>\<open>get_depth\<close>, \<^verbatim>\<open>get_frames\<close> and \<^verbatim>\<open>get_aligned_frames\<close>
  whenever they return, and \<^verbatim>\<open>set_option\<close> and \<^verbatim>\<open>get_option\<close>; for the Helios
  \<^verbatim>\<open>get_rgb\<close>, \<^verbatim>\<open>get_depth\<close>, \<^verbatim>\<open>get_frames\<close> and \<^verbatim>\<open>get_aligned_frames\<close> (its class
  defines no option operation).
\<close>

theorem intrinsics_and_serial_kept:
  "(\<forall>r self' w'. IntelRealsense_get_rgb sdk self w = Some (r, self', w') \<longrightarrow>
       intr self' = intr self \<and> serial_number self' = serial_number self) \<and>
   (\<forall>r self' w'. IntelRealsense_get_depth sdk self w = Some (r, self', w') \<longrightarrow>
       intr self' = intr self \<and> serial_number self' = serial_number self) \<and>
   (\<forall>r self' w'. IntelRealsense_get_frames sdk self w = Some (r, self', w') \<longrightarrow>
       intr self' = intr self \<and> serial_number self' = serial_number self) \<and>
   (\<forall>r self' w'. IntelRealsense_get_aligned_frames sdk self w = Some (r, self', w') \<longrightarrow>
       intr self' = intr self \<and> serial_number self' = serial_number self) \<and>
   (\<forall>r self' w'. IntelRealsense_set_option sdk self opt val w = (r, self', w') \<longrightarrow>
       intr self' = intr self \<and> serial_number self' = serial_number self) \<and>
   (\<forall>r self' w'. IntelRealsense_get_option sdk self opt w = (r, self', w') \<longrightarrow>
       intr self' = intr self \<and> serial_number self' = serial_number self) \<and>
   (\<forall>r h' w'. Helios_get_rgb hsdk h hw = (r, h', w') \<longrightarrow>
       intr h' = intr h \<and> serial_number h' = serial_number h) \<and>
   (\<forall>r h' w'. Helios_get_depth hsdk h hw = (r, h', w') \<longrightarrow>
       intr h' = intr h \<and> serial_number h' = serial_number h) \<and>
   (\<forall>r h' w'. Helios_get_frames hsdk h hw = (r, h', w') \<longrightarrow>
       intr h' = intr h \<and> serial_number h' = serial_number h) \<and>
   (\<forall>r h' w'. Helios_get_aligned_frames hsdk h hw = (r, h', w') \<longrightarrow>
       intr h' = intr h \<and> serial_number h' = serial_number h)"
proof -
  have o: "IntelRealsense_set_option sdk self opt val w = (r, self', w') \<Longrightarrow> self' = self"
    "IntelRealsense_get_option sdk self opt w = (r, self', w') \<Longrightarrow> self' = self" for r self' w'
    using IntelRealsense_option_self(1)[of sdk self opt val w] IntelRealsense_option_self(2)[of sdk self opt w] by auto
  have hh: "Helios_get_rgb hsdk h hw = (r1, h', w') \<Longrightarrow> h' = h"
    "Helios_get_depth hsdk h hw = (r2, h', w') \<Longrightarrow> h' = h"
    "Helios_get_frames hsdk h hw = (r3, h', w') \<Longrightarrow> h' = h"
    "Helios_get_aligned_frames hsdk h hw = (r3, h', w') \<Longrightarrow> h' = h" for r1 r2 r3 h' w'
    using Helios_self[of hsdk h hw] by auto
  show ?thesis
    by (intro conjI allI impI) (auto dest!: IntelRealsense_frames_self o hh)
qed

theorem intrinsics_and_serial_kept_witness:
  "(case IntelRealsense_get_rgb d435 d435_adapter world0 of
      Some (r, self', w') \<Rightarrow>
        intr self' = \<lparr>fx = 640, fy = 640, px = 640, py = 360, width = 1280, height = 720\<rparr> \<and>
        serial_number self' = []
    | None \<Rightarrow> False) \<and>
   (case IntelRealsense_get_depth d435 d435_adapter world0 of
      Some (r, self', w') \<Rightarrow>
        intr self' = \<lparr>fx = 640, fy = 640, px = 640, py = 360, width = 1280, height = 720\<rparr> \<and>
        serial_number self' = []
    | None \<Rightarrow> False) \<and>
   (case IntelRealsense_get_frames d435 d435_adapter world0 of
      Some (r, self', w') \<Rightarrow>
        intr self' = \<lparr>fx = 640, fy = 640, px = 640, py = 360, width = 1280, height = 720\<rparr> \<and>
        serial_number self' = []
    | None \<Rightarrow> False) \<and>
   (case IntelRealsense_get_aligned_frames d435 d435_adapter world0 of
      Some (r, self', w') \<Rightarrow>
        intr self' = \<lparr>fx = 640, fy = 640, px = 640, py = 360, width = 1280, height = 720\<rparr> \<and>
        serial_number self' = []
    | None \<Rightarrow> False) \<and>
   (case IntelRealsense_set_option d435 d435_adapter ''option.exposure'' 100 world0 of
      (r, self', w') \<Rightarrow>
        intr self' = \<lparr>fx = 640, fy = 640, px = 640, py = 360, width = 1280, height = 720\<rparr> \<and>
        serial_number self' = []) \<and>
   (case IntelRealsense_get_option d435 d435_adapter ''option.exposure'' world0 of
      (r, self', w') \<Rightarrow>
        intr self' = \<lparr>fx = 640, fy = 640, px = 640, py = 360, width = 1280, height = 720\<rparr> \<and>
        serial_number self' = []) \<and>
   (case Helios_get_rgb two_pixel_camera helios_A world0 of
      (r, h', w') \<Rightarrow>
        intr h' = \<lparr>fx = 525, fy = 525, px = 320, py = 240, width = 640, height = 480\<rparr> \<and>
        serial_number h' = ''A'') \<and>
   (case Helios_get_depth two_pixel_camera helios_A world0 of
      (r, h', w') \<Rightarrow>
        intr h' = \<lparr>fx = 525, fy = 525, px = 320, py = 240, width = 640, height = 480\<rparr> \<and>
        serial_number h' = ''A'') \<and>
   (case Helios_get_frames two_pixel_camera helios_A world0 of
      (r, h', w') \<Rightarrow>
        intr h' = \<lparr>fx = 525, fy = 525, px = 320, py = 240, width = 640, height = 480\<rparr> \<and>
        serial_number h' = ''A'') \<and>
   (case Helios_get_aligned_frames two_pixel_camera helios_A world0 of
      (r, h', w') \<Rightarrow>
        intr h' = \<lparr>fx = 525, fy = 525, px = 320, py = 240, width = 640, height = 480\<rparr> \<and>
        serial_number h' = ''A'')"
proof -
  note k = intrinsics_and_serial_kept[where sdk = d435 and self = d435_adapter and w = world0
      and opt = "''option.exposure''" and val = 100 and hsdk = two_pixel_camera
      and h = helios_A and hw = world0]
  have i: "intr d435_adapter = \<lparr>fx = 640, fy = 640, px = 640, py = 360, width = 1280, height = 720\<rparr>"
    "serial_number d435_adapter = []"
    "intr helios_A = \<lparr>fx = 525, fy = 525, px = 320, py = 240, width = 640, height = 480\<rparr>"
    "serial_number helios_A = ''A''"
    by (simp_all add: helios_A_def configure_device_def Camera_init_def helios_unit_def Let_def
        d435_adapter_def)
  have r: "IntelRealsense_get_rgb d435 d435_adapter world0 \<noteq> None"
    "IntelRealsense_get_depth d435 d435_adapter world0 \<noteq> None"
    "IntelRealsense_get_frames d435 d435_adapter world0 \<noteq> None"
    "IntelRealsense_get_aligned_frames d435 d435_adapter world0 \<noteq> None"
    using IntelRealsense_get_rgb_found[of 0 d435 world0
        "\<lparr>get_depth_frame = Some depth_5000, get_color_frame = Some black_frame\<rparr>"
        black_frame d435_adapter]
      IntelRealsense_get_depth_found[of 0 d435 world0
        "\<lparr>get_depth_frame = Some depth_5000, get_color_frame = Some black_frame\<rparr>"
        depth_5000 d435_adapter]
      IntelRealsense_get_frames_found[of d435 world0
        "\<lparr>get_depth_frame = Some depth_5000, get_color_frame = Some black_frame\<rparr>"
        depth_5000 black_frame d435_adapter]
      IntelRealsense_get_aligned_frames_found[of d435 world0
        "\<lparr>get_depth_frame = Some depth_5000, get_color_frame = Some black_frame\<rparr>"
        depth_5000 black_frame d435_adapter]
    by (simp_all add: d435_frames)
  show ?thesis
    using k r by (simp add: i split: option.split prod.split)
qed

end
